theory Spec2Isabelle
  imports Main "HOL-Library.AList"
begin

section \<open>Go library functions used by the tag parser\<close>

text \<open>
  Go strings are byte sequences; they are modelled as \<open>string\<close> (a list of 8-bit
  characters). The functions of package \<open>strings\<close> and \<open>strconv\<close> that the tag
  parser calls are written out here on bytes. Struct tags are ASCII in practice, and the
  models of \<open>TrimSpace\<close>, \<open>Fields\<close> and \<open>ToLower\<close> treat the six ASCII white-space
  bytes and the letters A to Z; a byte above 127 is neither white space nor a letter.
  Every separator the program passes to \<open>strings.Split\<close> is a single byte, so \<open>Split\<close>
  takes a character.
\<close>

definition HasPrefix :: "string \<Rightarrow> string \<Rightarrow> bool" where
  "HasPrefix s p = (take (length p) s = p)"

definition TrimPrefix :: "string \<Rightarrow> string \<Rightarrow> string" where
  "TrimPrefix s p = (if HasPrefix s p then drop (length p) s else s)"

fun Split :: "string \<Rightarrow> char \<Rightarrow> string list" where
  "Split [] sep = [[]]"
| "Split (c # cs) sep =
     (if c = sep then [] # Split cs sep
      else (case Split cs sep of [] \<Rightarrow> [[c]] | p # ps \<Rightarrow> (c # p) # ps))"

definition isSpace :: "char \<Rightarrow> bool" where
  "isSpace c = (c = CHR 0x20 \<or> c = CHR 0x09 \<or> c = CHR 0x0A \<or> c = CHR 0x0B
                \<or> c = CHR 0x0C \<or> c = CHR 0x0D)"

definition TrimSpace :: "string \<Rightarrow> string" where
  "TrimSpace s = rev (dropWhile isSpace (rev (dropWhile isSpace s)))"

fun fieldsFrom :: "string \<Rightarrow> string \<Rightarrow> string list" where
  "fieldsFrom cur [] = (if cur = [] then [] else [cur])"
| "fieldsFrom cur (c # cs) =
     (if isSpace c then (if cur = [] then fieldsFrom [] cs else cur # fieldsFrom [] cs)
      else fieldsFrom (cur @ [c]) cs)"

definition Fields :: "string \<Rightarrow> string list" where
  "Fields s = fieldsFrom [] s"

definition lowerByte :: "char \<Rightarrow> char" where
  "lowerByte c =
     (let n = (of_char c :: nat) in if 65 \<le> n \<and> n \<le> 90 then char_of (n + 32) else c)"

definition ToLower :: "string \<Rightarrow> string" where
  "ToLower s = map lowerByte s"

fun Contains :: "string \<Rightarrow> string \<Rightarrow> bool" where
  "Contains [] sub = (sub = [])"
| "Contains (c # cs) sub = (HasPrefix (c # cs) sub \<or> Contains cs sub)"

definition Trim :: "string \<Rightarrow> string \<Rightarrow> string" where
  "Trim s cutset =
     rev (dropWhile (\<lambda>c. c \<in> set cutset) (rev (dropWhile (\<lambda>c. c \<in> set cutset) s)))"

text \<open>
  \<open>strconv.Atoi\<close> and \<open>strconv.ParseInt(s, 10, 64)\<close>: an optional sign, then one or
  more decimal digits, and a value that fits a 64-bit signed integer; anything else is an
  error (\<open>None\<close>).
\<close>

definition isDigit :: "char \<Rightarrow> bool" where
  "isDigit c = (let n = (of_char c :: nat) in 48 \<le> n \<and> n \<le> 57)"

definition digitsValue :: "string \<Rightarrow> int" where
  "digitsValue ds = foldl (\<lambda>acc c. acc * 10 + (int (of_char c) - 48)) 0 ds"

definition Atoi :: "string \<Rightarrow> int option" where
  "Atoi s =
     (let neg = (s \<noteq> [] \<and> hd s = CHR ''-'');
          ds = (if s \<noteq> [] \<and> (hd s = CHR ''-'' \<or> hd s = CHR ''+'') then tl s else s)
      in if ds = [] \<or> \<not> list_all isDigit ds then None
         else let v = (if neg then - digitsValue ds else digitsValue ds)
              in if v < - (2 ^ 63) \<or> 2 ^ 63 \<le> v then None else Some v)"

definition ParseBool :: "string \<Rightarrow> bool option" where
  "ParseBool s =
     (if s \<in> set [''1'', ''t'', ''T'', ''TRUE'', ''true'', ''True''] then Some True
      else if s \<in> set [''0'', ''f'', ''F'', ''FALSE'', ''false'', ''False''] then Some False
      else None)"

text \<open>
  \<open>float64\<close> values are not interpreted. The two operations the program applies to
  them, \<open>strconv.ParseFloat(s, 64)\<close> and the conversion \<open>float64(v)\<close> of an \<open>int\<close>, are
  parameters of the model; \<open>None\<close> is ParseFloat's error.
\<close>

record 'f float64_ops =
  ParseFloat :: "string \<Rightarrow> 'f option"
  float64 :: "int \<Rightarrow> 'f"

section \<open>Struct tag parsing and merging\<close>

datatype fault = OutOfFuel | Panic

record 'f TagInfo =
  JSONName :: string
  OmitEmpty :: bool
  JSONSkip :: bool
  Required :: bool
  MinLength :: "int option"
  MaxLength :: "int option"
  Minimum :: "'f option"
  Maximum :: "'f option"
  Enum :: "string list"
  Format :: string
  Pattern :: string
  BindingSkip :: bool
  PrimaryKey :: bool
  AutoCreateTime :: bool
  AutoUpdateTime :: bool
  GORMSize :: "int option"
  GORMDefault :: "string option"
  UniqueIndex :: bool
  GORMSkip :: bool
  GORMType :: string
  Description :: string
  Example :: string
  Deprecated :: bool
  Hidden :: bool
  DocsFormat :: string
  DocsEnum :: "string list"

text \<open>The zero value \<open>var info TagInfo\<close>.\<close>

definition zeroTagInfo :: "'f TagInfo" where
  "zeroTagInfo =
     \<lparr> JSONName = [], OmitEmpty = False, JSONSkip = False,
       Required = False, MinLength = None, MaxLength = None, Minimum = None, Maximum = None,
       Enum = [], Format = [], Pattern = [], BindingSkip = False,
       PrimaryKey = False, AutoCreateTime = False, AutoUpdateTime = False, GORMSize = None,
       GORMDefault = None, UniqueIndex = False, GORMSkip = False, GORMType = [],
       Description = [], Example = [], Deprecated = False, Hidden = False,
       DocsFormat = [], DocsEnum = [] \<rparr>"

text \<open>
  \<open>parseJSONTag\<close>. The index expression \<open>parts[0]\<close> panics on an empty slice; the
  model returns \<open>Inl Panic\<close> there.
\<close>

definition parseJSONTag :: "string \<Rightarrow> fault + (string \<times> bool \<times> bool)" where
  "parseJSONTag tag =
     (if tag = [] then Inr ([], False, False)
      else if tag = ''-'' then Inr ([], False, True)
      else (case Split tag CHR '','' of
              [] \<Rightarrow> Inl Panic
            | name # opts \<Rightarrow> Inr (name, ''omitempty'' \<in> set opts, False)))"

text \<open>One iteration of the loop of \<open>parseBindingTag\<close> over the comma-separated parts.\<close>

definition bindingPart :: "'f float64_ops \<Rightarrow> 'f TagInfo \<Rightarrow> string \<Rightarrow> 'f TagInfo" where
  "bindingPart F info raw =
     (let part = TrimSpace raw in
      if part = ''required'' then info\<lparr>Required := True\<rparr>
      else if part = ''email'' then info\<lparr>Format := ''email''\<rparr>
      else if part = ''url'' \<or> part = ''uri'' \<or> part = ''http_url'' then info\<lparr>Format := ''uri''\<rparr>
      else if part = ''uuid'' \<or> part = ''uuid3'' \<or> part = ''uuid4'' \<or> part = ''uuid5''
        then info\<lparr>Format := ''uuid''\<rparr>
      else if part = ''ipv4'' then info\<lparr>Format := ''ipv4''\<rparr>
      else if part = ''ipv6'' then info\<lparr>Format := ''ipv6''\<rparr>
      else if part = ''ip'' then info\<lparr>Format := ''ipv4''\<rparr>
      else if part = ''datetime'' then info\<lparr>Format := ''date-time''\<rparr>
      else if HasPrefix part ''oneof='' then info\<lparr>Enum := Fields (TrimPrefix part ''oneof='')\<rparr>
      else if HasPrefix part ''min='' then
        (case Atoi (TrimPrefix part ''min='') of
           Some v \<Rightarrow> info\<lparr>MinLength := Some v, Minimum := Some (float64 F v)\<rparr>
         | None \<Rightarrow> info)
      else if HasPrefix part ''max='' then
        (case Atoi (TrimPrefix part ''max='') of
           Some v \<Rightarrow> info\<lparr>MaxLength := Some v, Maximum := Some (float64 F v)\<rparr>
         | None \<Rightarrow> info)
      else if HasPrefix part ''gte='' then
        (case ParseFloat F (TrimPrefix part ''gte='') of
           Some v \<Rightarrow> info\<lparr>Minimum := Some v\<rparr> | None \<Rightarrow> info)
      else if HasPrefix part ''gt='' then
        (case ParseFloat F (TrimPrefix part ''gt='') of
           Some v \<Rightarrow> info\<lparr>Minimum := Some v\<rparr> | None \<Rightarrow> info)
      else if HasPrefix part ''lte='' then
        (case ParseFloat F (TrimPrefix part ''lte='') of
           Some v \<Rightarrow> info\<lparr>Maximum := Some v\<rparr> | None \<Rightarrow> info)
      else if HasPrefix part ''lt='' then
        (case ParseFloat F (TrimPrefix part ''lt='') of
           Some v \<Rightarrow> info\<lparr>Maximum := Some v\<rparr> | None \<Rightarrow> info)
      else if HasPrefix part ''len='' then
        (case Atoi (TrimPrefix part ''len='') of
           Some v \<Rightarrow> info\<lparr>MinLength := Some v, MaxLength := Some v\<rparr>
         | None \<Rightarrow> info)
      else info)"

definition parseBindingTag :: "'f float64_ops \<Rightarrow> string \<Rightarrow> 'f TagInfo" where
  "parseBindingTag F tag =
     (if tag = [] \<or> tag = ''-'' then
        (if tag = ''-'' then zeroTagInfo\<lparr>BindingSkip := True\<rparr> else zeroTagInfo)
      else foldl (bindingPart F) zeroTagInfo (Split tag CHR '',''))"

text \<open>One iteration of the loop of \<open>parseGORMTag\<close> over the semicolon-separated parts.\<close>

definition gormPart :: "'f TagInfo \<Rightarrow> string \<Rightarrow> 'f TagInfo" where
  "gormPart info raw =
     (let part = TrimSpace raw; lower = ToLower part in
      if lower = ''primarykey'' \<or> lower = ''primary_key'' then info\<lparr>PrimaryKey := True\<rparr>
      else if lower = ''autocreatetime'' then info\<lparr>AutoCreateTime := True\<rparr>
      else if lower = ''autoupdatetime'' then info\<lparr>AutoUpdateTime := True\<rparr>
      else if lower = ''uniqueindex'' \<or> HasPrefix lower ''uniqueindex:''
        then info\<lparr>UniqueIndex := True\<rparr>
      else if HasPrefix lower ''size:'' then
        (case Atoi (TrimPrefix lower ''size:'') of
           Some v \<Rightarrow> info\<lparr>GORMSize := Some v\<rparr> | None \<Rightarrow> info)
      else if HasPrefix lower ''default:'' then
        info\<lparr>GORMDefault :=
          Some (Trim (TrimPrefix (TrimPrefix part ''default:'') ''Default:'')
                  [CHR 0x27, CHR 0x22])\<rparr>
      else if HasPrefix lower ''type:'' then info\<lparr>GORMType := TrimPrefix part ''type:''\<rparr>
      else info)"

definition parseGORMTag :: "string \<Rightarrow> 'f TagInfo" where
  "parseGORMTag tag =
     (if tag = [] then zeroTagInfo
      else if tag = ''-'' \<or> tag = ''-:all'' then zeroTagInfo\<lparr>GORMSkip := True\<rparr>
      else foldl gormPart zeroTagInfo (Split tag CHR '';''))"

text \<open>One iteration of the loop of \<open>parseDocsTag\<close> over the comma-separated parts.\<close>

definition docsPart :: "'f TagInfo \<Rightarrow> string \<Rightarrow> 'f TagInfo" where
  "docsPart info raw =
     (let part = TrimSpace raw in
      if part = ''deprecated'' then info\<lparr>Deprecated := True\<rparr>
      else if part = ''hidden'' then info\<lparr>Hidden := True\<rparr>
      else if HasPrefix part ''description:''
        then info\<lparr>Description := TrimPrefix part ''description:''\<rparr>
      else if HasPrefix part ''example:'' then info\<lparr>Example := TrimPrefix part ''example:''\<rparr>
      else if HasPrefix part ''format:'' then info\<lparr>DocsFormat := TrimPrefix part ''format:''\<rparr>
      else if HasPrefix part ''enum:''
        then info\<lparr>DocsEnum := Split (TrimPrefix part ''enum:'') CHR ''|''\<rparr>
      else info)"

definition parseDocsTag :: "string \<Rightarrow> 'f TagInfo" where
  "parseDocsTag tag =
     (if tag = [] then zeroTagInfo else foldl docsPart zeroTagInfo (Split tag CHR '',''))"

definition mergeTags ::
  "'f float64_ops \<Rightarrow> string \<Rightarrow> string \<Rightarrow> string \<Rightarrow> string \<Rightarrow> fault + 'f TagInfo" where
  "mergeTags F jsonTag bindingTag gormTag docsTag =
     (case parseJSONTag jsonTag of
        Inl e \<Rightarrow> Inl e
      | Inr (name, omitEmpty, jsonSkip) \<Rightarrow>
          let binding = parseBindingTag F bindingTag;
              gorm = (parseGORMTag gormTag :: 'f TagInfo);
              docs = (parseDocsTag docsTag :: 'f TagInfo);
              info = \<lparr> JSONName = name, OmitEmpty = omitEmpty, JSONSkip = jsonSkip,
                Required = Required binding, MinLength = MinLength binding,
                MaxLength = MaxLength binding, Minimum = Minimum binding,
                Maximum = Maximum binding, Enum = Enum binding, Format = Format binding,
                Pattern = Pattern binding, BindingSkip = BindingSkip binding,
                PrimaryKey = PrimaryKey gorm, AutoCreateTime = AutoCreateTime gorm,
                AutoUpdateTime = AutoUpdateTime gorm, GORMSize = GORMSize gorm,
                GORMDefault = GORMDefault gorm, UniqueIndex = UniqueIndex gorm,
                GORMSkip = GORMSkip gorm, GORMType = GORMType gorm,
                Description = Description docs, Example = Example docs,
                Deprecated = Deprecated docs, Hidden = Hidden docs,
                DocsFormat = DocsFormat docs, DocsEnum = DocsEnum docs \<rparr>;
              info = (if DocsFormat info \<noteq> [] then info\<lparr>Format := DocsFormat info\<rparr> else info);
              info = (if length (DocsEnum info) > 0 then info\<lparr>Enum := DocsEnum info\<rparr> else info)
          in Inr info)"

text \<open>
  An instance of the \<open>float64\<close> parameters for running the model on concrete tags: the
  floats that are 64-bit integers, written as decimal integers.
\<close>

definition intFloats :: "int float64_ops" where
  "intFloats = \<lparr> ParseFloat = Atoi, float64 = (\<lambda>v. v) \<rparr>"

text \<open>
  A clause of a \<open>binding\<close> tag that names a numeric bound whose number does not parse, and
  a \<open>size:\<close> clause of a \<open>gorm\<close> tag whose number does not parse.
\<close>

definition unparseableBindingBound :: "'f float64_ops \<Rightarrow> string \<Rightarrow> bool" where
  "unparseableBindingBound F raw =
     (let part = TrimSpace raw in
        (HasPrefix part ''min='' \<and> Atoi (TrimPrefix part ''min='') = None)
      \<or> (HasPrefix part ''max='' \<and> Atoi (TrimPrefix part ''max='') = None)
      \<or> (HasPrefix part ''len='' \<and> Atoi (TrimPrefix part ''len='') = None)
      \<or> (HasPrefix part ''gte='' \<and> ParseFloat F (TrimPrefix part ''gte='') = None)
      \<or> (HasPrefix part ''gt='' \<and> ParseFloat F (TrimPrefix part ''gt='') = None)
      \<or> (HasPrefix part ''lte='' \<and> ParseFloat F (TrimPrefix part ''lte='') = None)
      \<or> (HasPrefix part ''lt='' \<and> ParseFloat F (TrimPrefix part ''lt='') = None))"

definition unparseableGormSize :: "string \<Rightarrow> bool" where
  "unparseableGormSize raw =
     (let lower = ToLower (TrimSpace raw) in
        HasPrefix lower ''size:'' \<and> Atoi (TrimPrefix lower ''size:'') = None)"

section \<open>Schema objects\<close>

datatype 'f jsonval = JInt int | JFloat 'f | JBool bool | JString string

record 'f SchemaAttrs =
  sRef :: string
  sType :: string
  sFormat :: string
  sTitle :: string
  sDescription :: string
  sDefault :: "'f jsonval option"
  sExample :: "'f jsonval option"
  sDeprecated :: bool
  sReadOnly :: bool
  sWriteOnly :: bool
  sNullable :: bool
  sMinimum :: "'f option"
  sMaximum :: "'f option"
  sExclusiveMinimum :: "'f option"
  sExclusiveMaximum :: "'f option"
  sMultipleOf :: "'f option"
  sMinLength :: "int option"
  sMaxLength :: "int option"
  sPattern :: string
  sMinItems :: "int option"
  sMaxItems :: "int option"
  sRequired :: "string list"
  sEnum :: "'f jsonval list"

datatype 'f SchemaObject =
  SchemaObject
    (attrs: "'f SchemaAttrs")
    (Items: "'f SchemaObject option")
    (Properties: "(string \<times> 'f SchemaObject) list")
    (AdditionalProperties: "'f SchemaObject option")
    (AllOf: "'f SchemaObject list")
    (OneOf: "'f SchemaObject list")
    (AnyOf: "'f SchemaObject list")

definition zeroAttrs :: "'f SchemaAttrs" where
  "zeroAttrs =
     \<lparr> sRef = [], sType = [], sFormat = [], sTitle = [], sDescription = [],
       sDefault = None, sExample = None, sDeprecated = False, sReadOnly = False,
       sWriteOnly = False, sNullable = False, sMinimum = None, sMaximum = None,
       sExclusiveMinimum = None, sExclusiveMaximum = None, sMultipleOf = None,
       sMinLength = None, sMaxLength = None, sPattern = [], sMinItems = None,
       sMaxItems = None, sRequired = [], sEnum = [] \<rparr>"

definition zeroSchema :: "'f SchemaObject" where
  "zeroSchema = SchemaObject zeroAttrs None [] None [] [] []"

definition typedSchema :: "string \<Rightarrow> string \<Rightarrow> 'f SchemaObject" where
  "typedSchema ty fmt = SchemaObject (zeroAttrs\<lparr>sType := ty, sFormat := fmt\<rparr>) None [] None [] [] []"

fun withAttrs :: "('f SchemaAttrs \<Rightarrow> 'f SchemaAttrs) \<Rightarrow> 'f SchemaObject \<Rightarrow> 'f SchemaObject" where
  "withAttrs f (SchemaObject a i p ap al oo ao) = SchemaObject (f a) i p ap al oo ao"

fun setProperty :: "string \<Rightarrow> 'f SchemaObject \<Rightarrow> 'f SchemaObject \<Rightarrow> 'f SchemaObject" where
  "setProperty k v (SchemaObject a i p ap al oo ao) =
     SchemaObject a i (AList.update k v p) ap al oo ao"

definition RefPath :: "string \<Rightarrow> string" where
  "RefPath name = ''#/components/schemas/'' @ name"

definition SchemaRef :: "string \<Rightarrow> 'f SchemaObject" where
  "SchemaRef name = SchemaObject (zeroAttrs\<lparr>sRef := RefPath name\<rparr>) None [] None [] [] []"


text \<open>
  \<open>noNullable s\<close>: neither \<open>s\<close> nor any schema nested in it (items, properties,
  additional properties, \<open>allOf\<close>, \<open>oneOf\<close>, \<open>anyOf\<close>) is marked \<open>nullable\<close>.
\<close>

primrec noNullable :: "'f SchemaObject \<Rightarrow> bool" where
  "noNullable (SchemaObject a items props addl allOf oneOf anyOf) =
     (\<not> sNullable a
      \<and> (case map_option noNullable items of None \<Rightarrow> True | Some b \<Rightarrow> b)
      \<and> list_all snd (map (map_prod id noNullable) props)
      \<and> (case map_option noNullable addl of None \<Rightarrow> True | Some b \<Rightarrow> b)
      \<and> list_all id (map noNullable allOf)
      \<and> list_all id (map noNullable oneOf)
      \<and> list_all id (map noNullable anyOf))"

text \<open>\<open>noReadOnly s\<close>: neither \<open>s\<close> nor any schema nested in it is marked \<open>readOnly\<close>.\<close>

primrec noReadOnly :: "'f SchemaObject \<Rightarrow> bool" where
  "noReadOnly (SchemaObject a items props addl allOf oneOf anyOf) =
     (\<not> sReadOnly a
      \<and> (case map_option noReadOnly items of None \<Rightarrow> True | Some b \<Rightarrow> b)
      \<and> list_all snd (map (map_prod id noReadOnly) props)
      \<and> (case map_option noReadOnly addl of None \<Rightarrow> True | Some b \<Rightarrow> b)
      \<and> list_all id (map noReadOnly allOf)
      \<and> list_all id (map noReadOnly oneOf)
      \<and> list_all id (map noReadOnly anyOf))"

section \<open>Applying a merged directive to a field schema\<close>

definition parseDefaultValue :: "'f float64_ops \<Rightarrow> string \<Rightarrow> string \<Rightarrow> 'f jsonval" where
  "parseDefaultValue F val schemaType =
     (if schemaType = ''integer'' then
        (case Atoi val of Some v \<Rightarrow> JInt v | None \<Rightarrow> JString val)
      else if schemaType = ''number'' then
        (case ParseFloat F val of Some v \<Rightarrow> JFloat v | None \<Rightarrow> JString val)
      else if schemaType = ''boolean'' then
        (case ParseBool val of Some v \<Rightarrow> JBool v | None \<Rightarrow> JString val)
      else JString val)"

definition parseExampleValue :: "'f float64_ops \<Rightarrow> string \<Rightarrow> string \<Rightarrow> 'f jsonval" where
  "parseExampleValue F val schemaType =
     (if schemaType = ''integer'' then
        (case Atoi val of Some v \<Rightarrow> JInt v | None \<Rightarrow> JString val)
      else if schemaType = ''number'' then
        (case ParseFloat F val of Some v \<Rightarrow> JFloat v | None \<Rightarrow> JString val)
      else if schemaType = ''boolean'' then
        (case ParseBool val of Some v \<Rightarrow> JBool v | None \<Rightarrow> JString val)
      else JString val)"

text \<open>
  \<open>applyTagConstraints\<close> assigns to the fields of the schema one after the other. Each
  block of the source is one function on the schema's fields, named after the block's
  comment; \<open>applyTagConstraints\<close> applies them in the order of the source.
\<close>

definition applyDescription :: "'f TagInfo \<Rightarrow> 'f SchemaAttrs \<Rightarrow> 'f SchemaAttrs" where
  "applyDescription tags a =
     (if Description tags \<noteq> [] then a\<lparr>sDescription := Description tags\<rparr> else a)"

definition applyUniqueIndex :: "'f TagInfo \<Rightarrow> 'f SchemaAttrs \<Rightarrow> 'f SchemaAttrs" where
  "applyUniqueIndex tags a =
     (if UniqueIndex tags then
        (if sDescription a \<noteq> []
         then a\<lparr>sDescription := sDescription a @ ''. Must be unique''\<rparr>
         else a\<lparr>sDescription := ''Must be unique''\<rparr>)
      else a)"

definition applyFormat :: "'f TagInfo \<Rightarrow> 'f SchemaAttrs \<Rightarrow> 'f SchemaAttrs" where
  "applyFormat tags a = (if Format tags \<noteq> [] then a\<lparr>sFormat := Format tags\<rparr> else a)"

definition applyEnum :: "'f TagInfo \<Rightarrow> 'f SchemaAttrs \<Rightarrow> 'f SchemaAttrs" where
  "applyEnum tags a =
     (if length (Enum tags) > 0 then a\<lparr>sEnum := sEnum a @ map JString (Enum tags)\<rparr> else a)"

definition applyNumeric :: "'f TagInfo \<Rightarrow> 'f SchemaAttrs \<Rightarrow> 'f SchemaAttrs" where
  "applyNumeric tags a =
     (if sType a = ''integer'' \<or> sType a = ''number''
      then a\<lparr>sMinimum := Minimum tags, sMaximum := Maximum tags\<rparr> else a)"

definition applyString :: "'f TagInfo \<Rightarrow> 'f SchemaAttrs \<Rightarrow> 'f SchemaAttrs" where
  "applyString tags a =
     (if sType a = ''string'' then
        (let a = a\<lparr>sMinLength := MinLength tags, sMaxLength := MaxLength tags\<rparr>
         in if GORMSize tags \<noteq> None \<and> sMaxLength a = None
            then a\<lparr>sMaxLength := GORMSize tags\<rparr> else a)
      else a)"

definition applyDefault ::
  "'f float64_ops \<Rightarrow> 'f TagInfo \<Rightarrow> 'f SchemaAttrs \<Rightarrow> 'f SchemaAttrs" where
  "applyDefault F tags a =
     (case GORMDefault tags of
        Some d \<Rightarrow> a\<lparr>sDefault := Some (parseDefaultValue F d (sType a))\<rparr>
      | None \<Rightarrow> a)"

definition applyReadOnly :: "'f TagInfo \<Rightarrow> 'f SchemaAttrs \<Rightarrow> 'f SchemaAttrs" where
  "applyReadOnly tags a =
     (if PrimaryKey tags \<or> AutoCreateTime tags \<or> AutoUpdateTime tags
      then a\<lparr>sReadOnly := True\<rparr> else a)"

definition applyDeprecated :: "'f TagInfo \<Rightarrow> 'f SchemaAttrs \<Rightarrow> 'f SchemaAttrs" where
  "applyDeprecated tags a = (if Deprecated tags then a\<lparr>sDeprecated := True\<rparr> else a)"

definition applyExample ::
  "'f float64_ops \<Rightarrow> 'f TagInfo \<Rightarrow> 'f SchemaAttrs \<Rightarrow> 'f SchemaAttrs" where
  "applyExample F tags a =
     (if Example tags \<noteq> []
      then a\<lparr>sExample := Some (parseExampleValue F (Example tags) (sType a))\<rparr> else a)"

definition applyTagConstraints ::
  "'f float64_ops \<Rightarrow> 'f SchemaObject \<Rightarrow> 'f TagInfo \<Rightarrow> 'f SchemaObject" where
  "applyTagConstraints F schema tags =
     withAttrs (\<lambda>a.
       applyExample F tags (applyDeprecated tags (applyReadOnly tags (applyDefault F tags
         (applyString tags (applyNumeric tags (applyEnum tags (applyFormat tags
           (applyUniqueIndex tags (applyDescription tags a)))))))))) schema"

section \<open>Reflected types\<close>

text \<open>
  A \<open>reflect.Type\<close> is an identity (a number) into a table of type descriptions, so that
  a type can refer to itself through its fields or its element type, as Go types do.
  \<open>Elem\<close> is read for pointer, slice, array and map kinds only and \<open>StructFields\<close> for
  struct kinds only. \<open>IsTime\<close> says that the type is \<open>time.Time\<close>; \<open>TextMarshaler\<close>
  says that the type or its pointer type implements \<open>MarshalText\<close>. \<open>StructTag.Get\<close>
  is a lookup in the list of the tag's key-value pairs.
\<close>

datatype kind =
    KInvalid | KBool | KInt | KInt8 | KInt16 | KInt32 | KInt64
  | KUint | KUint8 | KUint16 | KUint32 | KUint64 | KUintptr
  | KFloat32 | KFloat64 | KComplex64 | KComplex128
  | KArray | KChan | KFunc | KInterface | KMap | KPtr | KSlice | KString | KStruct | KUnsafePointer

type_synonym rtype = nat

record StructField =
  FName :: string
  FPkgPath :: string
  FType :: rtype
  FTag :: "(string \<times> string) list"
  Anonymous :: bool

record TypeInfo =
  Kind :: kind
  TName :: string
  TPkgPath :: string
  TString :: string
  Elem :: rtype
  StructFields :: "StructField list"
  IsTime :: bool
  TextMarshaler :: bool

type_synonym typeEnv = "rtype \<Rightarrow> TypeInfo"

definition IsExported :: "StructField \<Rightarrow> bool" where
  "IsExported f = (FPkgPath f = [])"

definition TagGet :: "StructField \<Rightarrow> string \<Rightarrow> string" where
  "TagGet f key = (case map_of (FTag f) key of Some v \<Rightarrow> v | None \<Rightarrow> [])"

text \<open>
  The loop \<open>for t.Kind() == reflect.Ptr { t = t.Elem() }\<close>. It does not end on a pointer
  type that is its own element type (\<open>type P *P\<close>); the fuel bounds its iterations.
\<close>

fun deref :: "nat \<Rightarrow> typeEnv \<Rightarrow> rtype \<Rightarrow> fault + rtype" where
  "deref 0 env t = Inl OutOfFuel"
| "deref (Suc n) env t = (if Kind (env t) = KPtr then deref n env (Elem (env t)) else Inr t)"

section \<open>The type registry\<close>

record 'f TypeRegistry =
  schemas :: "string \<rightharpoonup> 'f SchemaObject"
  seen :: "rtype set"

definition newTypeRegistry :: "'f TypeRegistry" where
  "newTypeRegistry = \<lparr> schemas = Map.empty, seen = {} \<rparr>"

definition Register :: "'f TypeRegistry \<Rightarrow> string \<Rightarrow> 'f SchemaObject \<Rightarrow> 'f TypeRegistry" where
  "Register r name schema = r\<lparr>schemas := (schemas r)(name \<mapsto> schema)\<rparr>"

definition Get :: "'f TypeRegistry \<Rightarrow> string \<Rightarrow> 'f SchemaObject option" where
  "Get r name = schemas r name"

definition Has :: "'f TypeRegistry \<Rightarrow> string \<Rightarrow> bool" where
  "Has r name = (schemas r name \<noteq> None)"

definition markSeen :: "'f TypeRegistry \<Rightarrow> rtype \<Rightarrow> 'f TypeRegistry" where
  "markSeen r t = r\<lparr>seen := insert t (seen r)\<rparr>"

definition unmarkSeen :: "'f TypeRegistry \<Rightarrow> rtype \<Rightarrow> 'f TypeRegistry" where
  "unmarkSeen r t = r\<lparr>seen := seen r - {t}\<rparr>"

definition isSeen :: "'f TypeRegistry \<Rightarrow> rtype \<Rightarrow> bool" where
  "isSeen r t = (t \<in> seen r)"

text \<open>No schema registered in the registry is marked \<open>nullable\<close> anywhere.\<close>

definition registryNoNullable :: "'f TypeRegistry \<Rightarrow> bool" where
  "registryNoNullable r = (\<forall>schema \<in> ran (schemas r). noNullable schema)"

definition schemaName :: "nat \<Rightarrow> typeEnv \<Rightarrow> rtype \<Rightarrow> fault + string" where
  "schemaName n env t =
     (case deref n env t of
        Inl e \<Rightarrow> Inl e
      | Inr t \<Rightarrow> Inr (if TName (env t) = [] then ''AnonymousStruct'' else TName (env t)))"

text \<open>The name \<open>schemaName\<close> gives a type that is not a pointer.\<close>

definition bareName :: "typeEnv \<Rightarrow> rtype \<Rightarrow> string" where
  "bareName env t = (if TName (env t) = [] then ''AnonymousStruct'' else TName (env t))"


section \<open>Compiling a type to a schema\<close>

definition specialTypeSchema :: "typeEnv \<Rightarrow> rtype \<Rightarrow> 'f SchemaObject option" where
  "specialTypeSchema env t =
     (if IsTime (env t) then Some (typedSchema ''string'' ''date-time'')
      else if TextMarshaler (env t) then Some (typedSchema ''string'' [])
      else None)"

text \<open>
  The condition under which the field loops hoist the fields of an embedded field into
  the parent: the field is anonymous and its type, with pointers removed, is a struct that
  is not a special type. The result is the struct type to walk, \<open>Inr None\<close> when the
  field is an ordinary field.
\<close>

definition embeddedStruct :: "nat \<Rightarrow> typeEnv \<Rightarrow> StructField \<Rightarrow> fault + rtype option" where
  "embeddedStruct n env field =
     (if Anonymous field then
        (case deref n env (FType field) of
           Inl e \<Rightarrow> Inl e
         | Inr embeddedType \<Rightarrow>
             if Kind (env embeddedType) = KStruct
                \<and> (specialTypeSchema env embeddedType :: unit SchemaObject option) = None
             then Inr (Some embeddedType) else Inr None)
      else Inr None)"

definition fieldTags :: "'f float64_ops \<Rightarrow> StructField \<Rightarrow> fault + 'f TagInfo" where
  "fieldTags F field =
     mergeTags F (TagGet field ''json'') (TagGet field ''binding'') (TagGet field ''gorm'')
       (TagGet field ''docs'')"

definition propertyName :: "'f TagInfo \<Rightarrow> StructField \<Rightarrow> string" where
  "propertyName tagInfo field = (if JSONName tagInfo = [] then FName field else JSONName tagInfo)"

definition refWrapper :: "'f SchemaObject \<Rightarrow> 'f TagInfo \<Rightarrow> 'f SchemaObject" where
  "refWrapper baseSchema tags =
     SchemaObject (zeroAttrs\<lparr>sDescription := Description tags, sDeprecated := Deprecated tags\<rparr>)
       None [] None [baseSchema] [] []"

definition objectSchema :: "'f SchemaObject" where
  "objectSchema = typedSchema ''object'' []"

text \<open>
  The four mutually recursive functions of the compiler. The first argument after the
  \<open>float64\<close> operations bounds the depth of the call stack (and the iterations of the
  pointer loops): every call passes one unit less to the functions it calls, and a call
  with no fuel left is \<open>Inl OutOfFuel\<close>. \<open>structFieldsLoop\<close> is the \<open>for\<close> loop of
  \<open>processStructFields\<close> over the fields that remain; \<open>t.NumField()\<close> panics when
  \<open>t\<close> is not a struct. The registry is passed in and returned.
\<close>

function typeToSchema ::
      "'f float64_ops \<Rightarrow> nat \<Rightarrow> typeEnv \<Rightarrow> rtype \<Rightarrow> 'f TypeRegistry
        \<Rightarrow> fault + ('f SchemaObject \<times> 'f TypeRegistry)"
  and structToSchema ::
      "'f float64_ops \<Rightarrow> nat \<Rightarrow> typeEnv \<Rightarrow> rtype \<Rightarrow> 'f TypeRegistry
        \<Rightarrow> fault + ('f SchemaObject \<times> 'f TypeRegistry)"
  and processStructFields ::
      "'f float64_ops \<Rightarrow> nat \<Rightarrow> typeEnv \<Rightarrow> rtype \<Rightarrow> 'f SchemaObject \<Rightarrow> 'f TypeRegistry
        \<Rightarrow> fault + ('f SchemaObject \<times> 'f TypeRegistry)"
  and structFieldsLoop ::
      "'f float64_ops \<Rightarrow> nat \<Rightarrow> typeEnv \<Rightarrow> StructField list \<Rightarrow> 'f SchemaObject
        \<Rightarrow> 'f TypeRegistry \<Rightarrow> fault + ('f SchemaObject \<times> 'f TypeRegistry)"
  and fieldToSchema ::
      "'f float64_ops \<Rightarrow> nat \<Rightarrow> typeEnv \<Rightarrow> rtype \<Rightarrow> 'f TagInfo \<Rightarrow> 'f TypeRegistry
        \<Rightarrow> fault + ('f SchemaObject \<times> 'f TypeRegistry)"
where
  "typeToSchema F 0 env t registry = Inl OutOfFuel"
| "typeToSchema F (Suc n) env t0 registry =
     (case deref (Suc n) env t0 of
        Inl e \<Rightarrow> Inl e
      | Inr t \<Rightarrow>
         (case specialTypeSchema env t of
            Some schema \<Rightarrow> Inr (schema, registry)
          | None \<Rightarrow>
             let k = Kind (env t) in
             if k = KBool then Inr (typedSchema ''boolean'' [], registry)
             else if k \<in> {KInt, KInt8, KInt16, KInt32, KUint, KUint8, KUint16, KUint32}
               then Inr (typedSchema ''integer'' ''int32'', registry)
             else if k \<in> {KInt64, KUint64} then Inr (typedSchema ''integer'' ''int64'', registry)
             else if k = KFloat32 then Inr (typedSchema ''number'' ''float'', registry)
             else if k = KFloat64 then Inr (typedSchema ''number'' ''double'', registry)
             else if k = KString then Inr (typedSchema ''string'' [], registry)
             else if k \<in> {KSlice, KArray} then
               (case typeToSchema F n env (Elem (env t)) registry of
                  Inl e \<Rightarrow> Inl e
                | Inr (elemSchema, registry) \<Rightarrow>
                    if Kind (env (Elem (env t))) = KUint8
                    then Inr (typedSchema ''string'' ''byte'', registry)
                    else Inr (SchemaObject (zeroAttrs\<lparr>sType := ''array''\<rparr>)
                                (Some elemSchema) [] None [] [] [], registry))
             else if k = KMap then
               (case typeToSchema F n env (Elem (env t)) registry of
                  Inl e \<Rightarrow> Inl e
                | Inr (valSchema, registry) \<Rightarrow>
                    Inr (SchemaObject (zeroAttrs\<lparr>sType := ''object''\<rparr>)
                           None [] (Some valSchema) [] [] [], registry))
             else if k = KStruct then structToSchema F n env t registry
             else if k = KInterface then Inr (zeroSchema, registry)
             else Inr (typedSchema ''string'' [], registry)))"
| "structToSchema F 0 env t registry = Inl OutOfFuel"
| "structToSchema F (Suc n) env t0 registry =
     (case deref (Suc n) env t0 of
        Inl e \<Rightarrow> Inl e
      | Inr t \<Rightarrow>
         (case schemaName (Suc n) env t of
            Inl e \<Rightarrow> Inl e
          | Inr name \<Rightarrow>
              if Has registry name then Inr (SchemaRef name, registry)
              else if isSeen registry t then Inr (SchemaRef name, registry)
              else
                (case processStructFields F n env t objectSchema (markSeen registry t) of
                   Inl e \<Rightarrow> Inl e
                 | Inr (schema, registry) \<Rightarrow>
                     Inr (SchemaRef name, unmarkSeen (Register registry name schema) t))))"
| "processStructFields F 0 env t schema registry = Inl OutOfFuel"
| "processStructFields F (Suc n) env t schema registry =
     (if Kind (env t) \<noteq> KStruct then Inl Panic
      else structFieldsLoop F n env (StructFields (env t)) schema registry)"
| "structFieldsLoop F 0 env rest schema registry = Inl OutOfFuel"
| "structFieldsLoop F (Suc n) env [] schema registry = Inr (schema, registry)"
| "structFieldsLoop F (Suc n) env (field # rest) schema registry =
     (if \<not> IsExported field then structFieldsLoop F (Suc n) env rest schema registry
      else
        (case embeddedStruct (Suc n) env field of
           Inl e \<Rightarrow> Inl e
         | Inr (Some embeddedType) \<Rightarrow>
            (case processStructFields F n env embeddedType schema registry of
               Inl e \<Rightarrow> Inl e
             | Inr (schema, registry) \<Rightarrow>
                 structFieldsLoop F (Suc n) env rest schema registry)
         | Inr None \<Rightarrow>
            (case fieldTags F field of
               Inl e \<Rightarrow> Inl e
             | Inr tagInfo \<Rightarrow>
                 if JSONSkip tagInfo \<or> GORMSkip tagInfo \<or> Hidden tagInfo
                 then structFieldsLoop F (Suc n) env rest schema registry
                 else
                   (case fieldToSchema F n env (FType field) tagInfo registry of
                      Inl e \<Rightarrow> Inl e
                    | Inr (fieldSchema, registry) \<Rightarrow>
                        let propName = propertyName tagInfo field;
                            schema = setProperty propName fieldSchema schema;
                            schema = (if Required tagInfo
                                      then withAttrs (\<lambda>a. a\<lparr>sRequired := sRequired a @ [propName]\<rparr>) schema
                                      else schema)
                        in structFieldsLoop F (Suc n) env rest schema registry))))"
| "fieldToSchema F 0 env t tags registry = Inl OutOfFuel"
| "fieldToSchema F (Suc n) env t tags registry =
     (case typeToSchema F n env t registry of
        Inl e \<Rightarrow> Inl e
      | Inr (baseSchema, registry) \<Rightarrow>
          if sRef (attrs baseSchema) \<noteq> [] then
            (if Description tags \<noteq> [] \<or> Deprecated tags
             then Inr (refWrapper baseSchema tags, registry)
             else Inr (baseSchema, registry))
          else Inr (applyTagConstraints F baseSchema tags, registry))"

  by pat_completeness auto


termination
  apply (relation "inv_image (less_than <*lex*> less_than)
    (\<lambda>x. case x of
        Inl (Inl (F, n, env, t, r)) \<Rightarrow> (n, 0)
      | Inl (Inr (F, n, env, t, r)) \<Rightarrow> (n, 0)
      | Inr (Inl (F, n, env, t, s, r)) \<Rightarrow> (n, 0)
      | Inr (Inr (Inl (F, n, env, fs, s, r))) \<Rightarrow> (n, length fs)
      | Inr (Inr (Inr (F, n, env, t, tg, r))) \<Rightarrow> (n, 0))")
    apply (rule wf_inv_image [OF wf_lex_prod [OF wf_less_than wf_less_than]])
   apply simp_all
  done

section \<open>Create and Update variants of a model\<close>

definition isTimeType :: "typeEnv \<Rightarrow> rtype \<Rightarrow> bool" where
  "isTimeType env t = IsTime (env t)"

text \<open>\<open>reflect.TypeOf(&time.Time{})\<close>: the unnamed pointer type whose element is \<open>time.Time\<close>.\<close>

definition isPtrToTimeType :: "typeEnv \<Rightarrow> rtype \<Rightarrow> bool" where
  "isPtrToTimeType env t =
     (Kind (env t) = KPtr \<and> TName (env t) = [] \<and> IsTime (env (Elem (env t))))"

definition shouldSkipForCreate :: "typeEnv \<Rightarrow> StructField \<Rightarrow> bool" where
  "shouldSkipForCreate env field =
     (let name = FName field; gormTag = ToLower (TagGet field ''gorm'') in
      if Contains gormTag ''primarykey'' \<or> Contains gormTag ''primary_key'' then True
      else if Contains gormTag ''autocreatetime'' \<or> Contains gormTag ''autoupdatetime''
        then True
      else if name = ''ID'' \<or> name = ''CreatedAt'' \<or> name = ''UpdatedAt'' \<or> name = ''DeletedAt''
        then True
      else if TString (env (FType field)) = ''gorm.DeletedAt'' then True
      else if isTimeType env (FType field) \<or> isPtrToTimeType env (FType field) then
        (let lower = ToLower name in
         Contains lower ''created'' \<or> Contains lower ''updated'' \<or> Contains lower ''deleted'')
      else False)"

text \<open>
  \<open>generateCreateVariant\<close> and \<open>processCreateFields\<close> run the same loop over the fields
  of a struct (the two loop bodies of the source are the same text); \<open>createFieldsLoop\<close>
  is that loop over the fields that remain. The first starts from a fresh object schema,
  the second continues the schema of the struct that embeds \<open>t\<close>.
\<close>

function processCreateFields ::
      "'f float64_ops \<Rightarrow> nat \<Rightarrow> typeEnv \<Rightarrow> rtype \<Rightarrow> 'f SchemaObject \<Rightarrow> 'f TypeRegistry
        \<Rightarrow> fault + ('f SchemaObject \<times> 'f TypeRegistry)"
  and createFieldsLoop ::
      "'f float64_ops \<Rightarrow> nat \<Rightarrow> typeEnv \<Rightarrow> StructField list \<Rightarrow> 'f SchemaObject
        \<Rightarrow> 'f TypeRegistry \<Rightarrow> fault + ('f SchemaObject \<times> 'f TypeRegistry)"
where
  "processCreateFields F 0 env t schema registry = Inl OutOfFuel"
| "processCreateFields F (Suc n) env t schema registry =
     (if Kind (env t) \<noteq> KStruct then Inl Panic
      else createFieldsLoop F n env (StructFields (env t)) schema registry)"
| "createFieldsLoop F 0 env rest schema registry = Inl OutOfFuel"
| "createFieldsLoop F (Suc n) env [] schema registry = Inr (schema, registry)"
| "createFieldsLoop F (Suc n) env (field # rest) schema registry =
     (if \<not> IsExported field then createFieldsLoop F (Suc n) env rest schema registry
      else
        (case embeddedStruct (Suc n) env field of
           Inl e \<Rightarrow> Inl e
         | Inr (Some embeddedType) \<Rightarrow>
            (case processCreateFields F n env embeddedType schema registry of
               Inl e \<Rightarrow> Inl e
             | Inr (schema, registry) \<Rightarrow>
                 createFieldsLoop F (Suc n) env rest schema registry)
         | Inr None \<Rightarrow>
            if shouldSkipForCreate env field
            then createFieldsLoop F (Suc n) env rest schema registry
            else
              (case fieldTags F field of
                 Inl e \<Rightarrow> Inl e
               | Inr tagInfo \<Rightarrow>
                   if JSONSkip tagInfo \<or> GORMSkip tagInfo \<or> Hidden tagInfo
                   then createFieldsLoop F (Suc n) env rest schema registry
                   else
                     (case fieldToSchema F n env (FType field) tagInfo registry of
                        Inl e \<Rightarrow> Inl e
                      | Inr (fieldSchema, registry) \<Rightarrow>
                          let propName = propertyName tagInfo field;
                              schema = setProperty propName fieldSchema schema;
                              schema = (if Required tagInfo
                                        then withAttrs (\<lambda>a. a\<lparr>sRequired := sRequired a @ [propName]\<rparr>) schema
                                        else schema)
                          in createFieldsLoop F (Suc n) env rest schema registry))))"
  by pat_completeness auto

termination
  apply (relation "inv_image (less_than <*lex*> less_than)
    (\<lambda>x. case x of
        Inl (F, n, env, t, s, r) \<Rightarrow> (n, 0)
      | Inr (F, n, env, fs, s, r) \<Rightarrow> (n, length fs))")
    apply (rule wf_inv_image [OF wf_lex_prod [OF wf_less_than wf_less_than]])
   apply simp_all
  done

definition generateCreateVariant ::
  "'f float64_ops \<Rightarrow> nat \<Rightarrow> typeEnv \<Rightarrow> rtype \<Rightarrow> 'f TypeRegistry
    \<Rightarrow> fault + ('f SchemaObject \<times> 'f TypeRegistry)" where
  "generateCreateVariant F n env t registry =
     (if Kind (env t) \<noteq> KStruct then Inl Panic
      else createFieldsLoop F n env (StructFields (env t)) objectSchema registry)"

text \<open>
  \<open>generateUpdateVariant\<close> and \<open>processUpdateFields\<close>, in the same way. The loop clears
  \<open>ReadOnly\<close> on a field schema that is not a \<open>$ref\<close> and never appends to \<open>Required\<close>.
\<close>

function processUpdateFields ::
      "'f float64_ops \<Rightarrow> nat \<Rightarrow> typeEnv \<Rightarrow> rtype \<Rightarrow> 'f SchemaObject \<Rightarrow> 'f TypeRegistry
        \<Rightarrow> fault + ('f SchemaObject \<times> 'f TypeRegistry)"
  and updateFieldsLoop ::
      "'f float64_ops \<Rightarrow> nat \<Rightarrow> typeEnv \<Rightarrow> StructField list \<Rightarrow> 'f SchemaObject
        \<Rightarrow> 'f TypeRegistry \<Rightarrow> fault + ('f SchemaObject \<times> 'f TypeRegistry)"
where
  "processUpdateFields F 0 env t schema registry = Inl OutOfFuel"
| "processUpdateFields F (Suc n) env t schema registry =
     (if Kind (env t) \<noteq> KStruct then Inl Panic
      else updateFieldsLoop F n env (StructFields (env t)) schema registry)"
| "updateFieldsLoop F 0 env rest schema registry = Inl OutOfFuel"
| "updateFieldsLoop F (Suc n) env [] schema registry = Inr (schema, registry)"
| "updateFieldsLoop F (Suc n) env (field # rest) schema registry =
     (if \<not> IsExported field then updateFieldsLoop F (Suc n) env rest schema registry
      else
        (case embeddedStruct (Suc n) env field of
           Inl e \<Rightarrow> Inl e
         | Inr (Some embeddedType) \<Rightarrow>
            (case processUpdateFields F n env embeddedType schema registry of
               Inl e \<Rightarrow> Inl e
             | Inr (schema, registry) \<Rightarrow>
                 updateFieldsLoop F (Suc n) env rest schema registry)
         | Inr None \<Rightarrow>
            if shouldSkipForCreate env field
            then updateFieldsLoop F (Suc n) env rest schema registry
            else
              (case fieldTags F field of
                 Inl e \<Rightarrow> Inl e
               | Inr tagInfo \<Rightarrow>
                   if JSONSkip tagInfo \<or> GORMSkip tagInfo \<or> Hidden tagInfo
                   then updateFieldsLoop F (Suc n) env rest schema registry
                   else
                     (case fieldToSchema F n env (FType field) tagInfo registry of
                        Inl e \<Rightarrow> Inl e
                      | Inr (fieldSchema, registry) \<Rightarrow>
                          let propName = propertyName tagInfo field;
                              fieldSchema = (if sRef (attrs fieldSchema) = []
                                             then withAttrs (\<lambda>a. a\<lparr>sReadOnly := False\<rparr>) fieldSchema
                                             else fieldSchema);
                              schema = setProperty propName fieldSchema schema
                          in updateFieldsLoop F (Suc n) env rest schema registry))))"
  by pat_completeness auto

termination
  apply (relation "inv_image (less_than <*lex*> less_than)
    (\<lambda>x. case x of
        Inl (F, n, env, t, s, r) \<Rightarrow> (n, 0)
      | Inr (F, n, env, fs, s, r) \<Rightarrow> (n, length fs))")
    apply (rule wf_inv_image [OF wf_lex_prod [OF wf_less_than wf_less_than]])
   apply simp_all
  done

definition generateUpdateVariant ::
  "'f float64_ops \<Rightarrow> nat \<Rightarrow> typeEnv \<Rightarrow> rtype \<Rightarrow> 'f TypeRegistry
    \<Rightarrow> fault + ('f SchemaObject \<times> 'f TypeRegistry)" where
  "generateUpdateVariant F n env t registry =
     (if Kind (env t) \<noteq> KStruct then Inl Panic
      else updateFieldsLoop F n env (StructFields (env t)) objectSchema registry)"

text \<open>
  The field list of a struct with the fields of embedded structs hoisted in place, as the
  three field loops walk it: unexported fields are left out, and an embedded struct
  contributes its own hoisted fields instead of itself.
\<close>

function hoistedFields :: "nat \<Rightarrow> typeEnv \<Rightarrow> rtype \<Rightarrow> fault + StructField list"
  and hoistedFrom :: "nat \<Rightarrow> typeEnv \<Rightarrow> StructField list \<Rightarrow> fault + StructField list"
where
  "hoistedFields 0 env t = Inl OutOfFuel"
| "hoistedFields (Suc n) env t =
     (if Kind (env t) \<noteq> KStruct then Inl Panic else hoistedFrom n env (StructFields (env t)))"
| "hoistedFrom 0 env rest = Inl OutOfFuel"
| "hoistedFrom (Suc n) env [] = Inr []"
| "hoistedFrom (Suc n) env (field # rest) =
     (if \<not> IsExported field then hoistedFrom (Suc n) env rest
      else
        (case embeddedStruct (Suc n) env field of
           Inl e \<Rightarrow> Inl e
         | Inr (Some embeddedType) \<Rightarrow>
            (case hoistedFields n env embeddedType of
               Inl e \<Rightarrow> Inl e
             | Inr inner \<Rightarrow>
                (case hoistedFrom (Suc n) env rest of
                   Inl e \<Rightarrow> Inl e
                 | Inr others \<Rightarrow> Inr (inner @ others)))
         | Inr None \<Rightarrow>
            (case hoistedFrom (Suc n) env rest of
               Inl e \<Rightarrow> Inl e
             | Inr others \<Rightarrow> Inr (field # others))))"
  by pat_completeness auto

termination
  apply (relation "inv_image (less_than <*lex*> less_than)
    (\<lambda>x. case x of
        Inl (n, env, t) \<Rightarrow> (n, 0)
      | Inr (n, env, fs) \<Rightarrow> (n, length fs))")
    apply (rule wf_inv_image [OF wf_lex_prod [OF wf_less_than wf_less_than]])
   apply simp_all
  done

text \<open>
  The property name a field is emitted under, when it is emitted: the field has a
  directive, and the directive does not skip or hide it.
\<close>

definition emittedName :: "'f float64_ops \<Rightarrow> StructField \<Rightarrow> string option" where
  "emittedName F field =
     (case fieldTags F field of
        Inl e \<Rightarrow> None
      | Inr tagInfo \<Rightarrow>
          if JSONSkip tagInfo \<or> GORMSkip tagInfo \<or> Hidden tagInfo then None
          else Some (propertyName tagInfo field))"

definition propertyNames :: "'f SchemaObject \<Rightarrow> string set" where
  "propertyNames schema = fst ` set (Properties schema)"

text \<open>
  The property names of the Create and Update variants, from the hoisted field list: the
  emitted names of the fields that \<open>shouldSkipForCreate\<close> does not exclude. The property
  names of the full schema are the emitted names of all hoisted fields.
\<close>

definition variantNames :: "'f float64_ops \<Rightarrow> typeEnv \<Rightarrow> StructField list \<Rightarrow> string set" where
  "variantNames F env hs =
     set (List.map_filter
            (\<lambda>f. if shouldSkipForCreate env f then None else emittedName F f) hs)"

definition fullNames :: "'f float64_ops \<Rightarrow> StructField list \<Rightarrow> string set" where
  "fullNames F hs = set (List.map_filter (emittedName F) hs)"


section \<open>Concrete type tables\<close>

definition invalidType :: TypeInfo where
  "invalidType = \<lparr> Kind = KInvalid, TName = [], TPkgPath = [], TString = [], Elem = 0,
     StructFields = [], IsTime = False, TextMarshaler = False \<rparr>"

definition typeTable :: "TypeInfo list \<Rightarrow> typeEnv" where
  "typeTable ts t = (if t < length ts then ts ! t else invalidType)"

definition basicType :: "kind \<Rightarrow> string \<Rightarrow> TypeInfo" where
  "basicType k name = invalidType\<lparr>Kind := k, TName := name, TString := name\<rparr>"

definition ptrTo :: "rtype \<Rightarrow> TypeInfo" where
  "ptrTo e = invalidType\<lparr>Kind := KPtr, Elem := e\<rparr>"

definition sliceOf :: "rtype \<Rightarrow> TypeInfo" where
  "sliceOf e = invalidType\<lparr>Kind := KSlice, Elem := e\<rparr>"

definition structType :: "string \<Rightarrow> string \<Rightarrow> StructField list \<Rightarrow> TypeInfo" where
  "structType pkg name fs =
     invalidType\<lparr>Kind := KStruct, TName := name, TPkgPath := pkg,
       TString := (if name = [] then ''struct {...}'' else pkg @ ''.'' @ name), StructFields := fs\<rparr>"

definition timeType :: TypeInfo where
  "timeType = invalidType\<lparr>Kind := KStruct, TName := ''Time'', TPkgPath := ''time'',
     TString := ''time.Time'', IsTime := True, TextMarshaler := True\<rparr>"

definition field :: "string \<Rightarrow> rtype \<Rightarrow> (string \<times> string) list \<Rightarrow> StructField" where
  "field name ty tag =
     \<lparr> FName = name, FPkgPath = [], FType = ty, FTag = tag, Anonymous = False \<rparr>"

definition embedded :: "string \<Rightarrow> rtype \<Rightarrow> StructField" where
  "embedded name ty =
     \<lparr> FName = name, FPkgPath = [], FType = ty, FTag = [], Anonymous = True \<rparr>"

text \<open>
  \<open>type TestNode struct { ID uint; Name string; Children []TestNode }\<close> with its \<open>json\<close>
  tags, from the repository's tests.
\<close>

definition nodeEnv :: typeEnv where
  "nodeEnv = typeTable
     [ structType ''gindocs'' ''TestNode''
         [ field ''ID'' 1 [(''json'', ''id'')],
           field ''Name'' 2 [(''json'', ''name'')],
           field ''Children'' 3 [(''json'', ''children'')] ],
       basicType KUint ''uint'',
       basicType KString ''string'',
       sliceOf 0 ]"

text \<open>\<open>type Node struct { *Node; Val int }\<close>: a struct that embeds a pointer to itself.\<close>

definition selfEmbedEnv :: typeEnv where
  "selfEmbedEnv = typeTable
     [ structType ''main'' ''Node'' [ embedded ''Node'' 1, field ''Val'' 2 [] ],
       ptrTo 0,
       basicType KInt ''int'' ]"

text \<open>
  Two struct types named \<open>Item\<close>, one in package \<open>a\<close> with a field \<open>SKU string\<close>, one
  in package \<open>b\<close> with a field \<open>Price float64\<close>.
\<close>

definition itemsEnv :: typeEnv where
  "itemsEnv = typeTable
     [ structType ''a'' ''Item'' [ field ''SKU'' 2 [(''json'', ''sku'')] ],
       structType ''b'' ''Item'' [ field ''Price'' 3 [(''json'', ''price'')] ],
       basicType KString ''string'',
       basicType KFloat64 ''float64'' ]"

text \<open>
  Two anonymous struct types, \<open>struct { A string }\<close> and \<open>struct { B int }\<close>, and a
  third, \<open>struct { time.Time; B string }\<close>, which has the promoted method \<open>MarshalText\<close>
  of the embedded \<open>time.Time\<close> and so implements \<open>encoding.TextMarshaler\<close>.
\<close>

definition anonEnv :: typeEnv where
  "anonEnv = typeTable
     [ structType [] [] [ field ''A'' 2 [] ],
       structType [] [] [ field ''B'' 3 [] ],
       basicType KString ''string'',
       basicType KInt ''int'',
       timeType,
       (structType [] [] [ embedded ''Time'' 4, field ''B'' 2 [] ])\<lparr>TextMarshaler := True\<rparr> ]"

text \<open>The registry after the first anonymous struct type has been compiled.\<close>

definition anonRegistry :: "int TypeRegistry" where
  "anonRegistry = snd (projr (typeToSchema intFloats 6 anonEnv 0 newTypeRegistry))"



text \<open>
  An entity with an identity key, a name and an auto-generated timestamp, and a reference
  to another struct:
  \<open>type Owner struct { Nick string }\<close> and
  \<open>type Entity struct { Key uint `json:"id" gorm:"primarykey"`;
    Name string `json:"name" binding:"required"`;
    Stamp time.Time `json:"createdAt" gorm:"autoCreateTime"`;
    Owner Owner `json:"owner"` }\<close>.
\<close>

definition entityEnv :: typeEnv where
  "entityEnv = typeTable
     [ structType ''main'' ''Entity''
         [ field ''Key'' 1 [(''json'', ''id''), (''gorm'', ''primarykey'')],
           field ''Name'' 2 [(''json'', ''name''), (''binding'', ''required'')],
           field ''Stamp'' 3 [(''json'', ''createdAt''), (''gorm'', ''autoCreateTime'')],
           field ''Owner'' 4 [(''json'', ''owner'')] ],
       basicType KUint ''uint'',
       basicType KString ''string'',
       timeType,
       structType ''main'' ''Owner'' [ field ''Nick'' 2 [(''json'', ''nick'')] ] ]"

text \<open>
  The entity of Scenario C and D of the specification:
  \<open>type Record struct { ID uint `json:"id" gorm:"primarykey"`;
    Name string `json:"name" binding:"required"`;
    CreatedAt time.Time `json:"createdAt" gorm:"autoCreateTime"` }\<close>.
\<close>

definition recordEnv :: typeEnv where
  "recordEnv = typeTable
     [ structType ''main'' ''Record''
         [ field ''ID'' 1 [(''json'', ''id''), (''gorm'', ''primarykey'')],
           field ''Name'' 2 [(''json'', ''name''), (''binding'', ''required'')],
           field ''CreatedAt'' 3 [(''json'', ''createdAt''), (''gorm'', ''autoCreateTime'')] ],
       basicType KUint ''uint'',
       basicType KString ''string'',
       timeType ]"

text \<open>
  A struct with a field that is no identity key and no timestamp, but whose \<open>gorm\<close> tag
  names a column that contains the word \<open>primarykey\<close>:
  \<open>type Legacy struct { Ref string `json:"ref" gorm:"column:primarykey_ref"`;
    Name string `json:"name"` }\<close>.
\<close>

definition legacyRefField :: StructField where
  "legacyRefField = field ''Ref'' 1 [(''json'', ''ref''), (''gorm'', ''column:primarykey_ref'')]"

definition legacyEnv :: typeEnv where
  "legacyEnv = typeTable
     [ structType ''main'' ''Legacy'' [ legacyRefField, field ''Name'' 1 [(''json'', ''name'')] ],
       basicType KString ''string'' ]"


section \<open>Properties of tag parsing\<close>

lemma Split_nonempty: "Split s sep \<noteq> []"
  by (induction s) (auto split: list.splits)

lemma Split_append: "Split (a @ sep # b) sep = Split a sep @ Split b sep"
proof (induction a)
  case Nil
  then show ?case by simp
next
  case (Cons c a)
  then show ?case
    using Split_nonempty [of a sep] by (simp split: list.splits)
qed

lemma Split_no_sep: "sep \<notin> set s \<Longrightarrow> Split s sep = [s]"
  by (induction s) auto

lemma parseJSONTag_returns: "\<exists>r. parseJSONTag tag = Inr r"
  using Split_nonempty [of tag "CHR '',''"]
  by (auto simp: parseJSONTag_def split: list.splits)

lemma mergeTags_returns: "\<exists>info. mergeTags F j b g d = Inr info"
proof -
  obtain r where "parseJSONTag j = Inr r" using parseJSONTag_returns by blast
  then show ?thesis by (cases r) (simp add: mergeTags_def Let_def)
qed

lemma HasPrefix_TrimPrefix: "HasPrefix s p \<Longrightarrow> s = p @ TrimPrefix s p"
  unfolding HasPrefix_def TrimPrefix_def by (metis append_take_drop_id)

lemma bindingPart_atoi_None:
  assumes "k = ''min='' \<or> k = ''max='' \<or> k = ''len=''"
    and "TrimSpace raw = k @ r" and "Atoi r = None"
  shows "bindingPart F info raw = info"
  using assms unfolding bindingPart_def Let_def
  by (elim disjE) (simp_all add: HasPrefix_def TrimPrefix_def)

lemma bindingPart_float_None:
  assumes "k = ''gte='' \<or> k = ''gt='' \<or> k = ''lte='' \<or> k = ''lt=''"
    and "TrimSpace raw = k @ r" and "ParseFloat F r = None"
  shows "bindingPart F info raw = info"
  using assms unfolding bindingPart_def Let_def
  by (elim disjE) (simp_all add: HasPrefix_def TrimPrefix_def)

lemma bindingPart_unparseable:
  assumes "unparseableBindingBound F raw"
  shows "bindingPart F info raw = info"
  using assms unfolding unparseableBindingBound_def Let_def
  by (elim disjE conjE)
     (blast intro: bindingPart_atoi_None bindingPart_float_None HasPrefix_TrimPrefix)+

lemma gormPart_unparseable:
  assumes "unparseableGormSize raw"
  shows "gormPart info raw = info"
proof -
  define lower where "lower = ToLower (TrimSpace raw)"
  define r where "r = TrimPrefix lower ''size:''"
  from assms have p: "HasPrefix lower ''size:''" and a: "Atoi r = None"
    unfolding unparseableGormSize_def lower_def r_def Let_def by auto
  from p have "lower = ''size:'' @ r"
    unfolding r_def by (rule HasPrefix_TrimPrefix)
  with a show ?thesis
    unfolding gormPart_def lower_def [symmetric] Let_def
    by (simp add: HasPrefix_def TrimPrefix_def)
qed

lemma parseBindingTag_clauses:
  assumes "tag \<noteq> []" and "tag \<noteq> ''-''"
  shows "parseBindingTag F tag = foldl (bindingPart F) zeroTagInfo (Split tag CHR '','')"
  using assms by (simp add: parseBindingTag_def)

lemma parseGORMTag_clauses:
  assumes "tag \<noteq> []" and "tag \<noteq> ''-''" and "tag \<noteq> ''-:all''"
  shows "parseGORMTag tag = foldl gormPart zeroTagInfo (Split tag CHR '';'')"
  using assms by (simp add: parseGORMTag_def)

lemma mergeTags_Format:
  fixes F :: "'f float64_ops"
  assumes "mergeTags F j b g d = Inr info"
  shows "Format info =
           (if DocsFormat (parseDocsTag d :: 'f TagInfo) \<noteq> []
            then DocsFormat (parseDocsTag d :: 'f TagInfo) else Format (parseBindingTag F b))"
proof -
  obtain name omitEmpty jsonSkip where "parseJSONTag j = Inr (name, omitEmpty, jsonSkip)"
    using parseJSONTag_returns [of j] by (metis prod_cases3)
  with assms show ?thesis
    by (cases "DocsEnum (parseDocsTag d :: 'f TagInfo) = []")
       (auto simp: mergeTags_def Let_def)
qed

lemma mergeTags_Enum:
  fixes F :: "'f float64_ops"
  assumes "mergeTags F j b g d = Inr info"
  shows "Enum info =
           (if DocsEnum (parseDocsTag d :: 'f TagInfo) \<noteq> []
            then DocsEnum (parseDocsTag d :: 'f TagInfo) else Enum (parseBindingTag F b))"
proof -
  obtain name omitEmpty jsonSkip where "parseJSONTag j = Inr (name, omitEmpty, jsonSkip)"
    using parseJSONTag_returns [of j] by (metis prod_cases3)
  with assms show ?thesis
    by (cases "DocsFormat (parseDocsTag d :: 'f TagInfo) = []")
       (auto simp: mergeTags_def Let_def)
qed

lemma has_sep_not_special:
  "tag = pre @ sep # post \<Longrightarrow> tag \<noteq> [] \<and> (sep \<noteq> CHR ''-'' \<longrightarrow> tag \<noteq> ''-'')"
  by (cases pre) auto

lemma has_semicolon_not_all: "pre @ CHR '';'' # post \<noteq> ''-:all''"
proof
  assume "pre @ CHR '';'' # post = ''-:all''"
  then have "CHR '';'' \<in> set ''-:all''" by (metis in_set_conv_decomp)
  then show False by simp
qed

lemma parseBindingTag_email: "Format (parseBindingTag F ''email'') = ''email''"
  by (simp add: parseBindingTag_def bindingPart_def TrimSpace_def isSpace_def zeroTagInfo_def)

lemma parseDocsTag_format_uri: "DocsFormat (parseDocsTag ''format:uri'') = ''uri''"
  by (simp add: parseDocsTag_def docsPart_def TrimSpace_def isSpace_def zeroTagInfo_def
      HasPrefix_def TrimPrefix_def)

text \<open>
  C4. Whenever the \<open>docs\<close> tag supplies a format (a non-empty \<open>DocsFormat\<close>) the merged
  format is that format, and whenever it supplies an enum (a non-empty \<open>DocsEnum\<close>) the
  merged enum is that enum, whatever the \<open>binding\<close> tag gave. A field with
  \<open>binding:"email"\<close> and \<open>docs:"format:uri"\<close> merges to format \<open>uri\<close>, for every \<open>json\<close>
  and \<open>gorm\<close> tag.
\<close>

theorem mergeTags_docs_override:
  fixes F :: "'f float64_ops"
  shows "\<exists>info. mergeTags F j b g d = Inr info
      \<and> (DocsFormat (parseDocsTag d :: 'f TagInfo) \<noteq> []
           \<longrightarrow> Format info = DocsFormat (parseDocsTag d :: 'f TagInfo))
      \<and> (DocsEnum (parseDocsTag d :: 'f TagInfo) \<noteq> []
           \<longrightarrow> Enum info = DocsEnum (parseDocsTag d :: 'f TagInfo))
      \<and> (b = ''email'' \<and> d = ''format:uri''
           \<longrightarrow> Format (parseBindingTag F b) = ''email'' \<and> Format info = ''uri'')"
proof -
  obtain info where m: "mergeTags F j b g d = Inr info"
    using mergeTags_returns by blast
  have "Format info = ''uri''" if "d = ''format:uri''"
    using mergeTags_Format [OF m] parseDocsTag_format_uri [where ?'a = 'f]
    unfolding that by simp
  with m show ?thesis
    using mergeTags_Format [OF m] mergeTags_Enum [OF m] parseBindingTag_email [of F]
    by (intro exI [of _ info]) simp
qed

theorem mergeTags_docs_override_witness:
  "\<exists>info. mergeTags intFloats ''email'' ''email,oneof=a b'' [] ''format:uri,enum:x|y'' = Inr info
      \<and> Format (parseBindingTag intFloats ''email,oneof=a b'') = ''email''
      \<and> Enum (parseBindingTag intFloats ''email,oneof=a b'') = [''a'', ''b'']
      \<and> Format info = ''uri'' \<and> Enum info = [''x'', ''y'']"
proof -
  have f: "DocsFormat (parseDocsTag ''format:uri,enum:x|y'' :: int TagInfo) = ''uri''"
    and e: "DocsEnum (parseDocsTag ''format:uri,enum:x|y'' :: int TagInfo) = [''x'', ''y'']"
    by (simp_all add: parseDocsTag_def docsPart_def TrimSpace_def isSpace_def zeroTagInfo_def
        HasPrefix_def TrimPrefix_def)
  have b: "Format (parseBindingTag intFloats ''email,oneof=a b'') = ''email''"
    "Enum (parseBindingTag intFloats ''email,oneof=a b'') = [''a'', ''b'']"
    by (simp_all add: parseBindingTag_def bindingPart_def TrimSpace_def isSpace_def
        zeroTagInfo_def HasPrefix_def TrimPrefix_def Fields_def)
  show ?thesis
    using mergeTags_docs_override
      [of intFloats "''email''" "''email,oneof=a b''" "[]" "''format:uri,enum:x|y''"] f e b
    by auto
qed

text \<open>
  C8, as the code has it. Merging the four tags of a field always returns a directive (the
  index expression of \<open>parseJSONTag\<close> never panics, and the other three parsers have no
  failing operation). A clause of a \<open>binding\<close> tag whose numeric bound does not parse
  (\<open>min=\<close>, \<open>max=\<close>, \<open>len=\<close>, \<open>gte=\<close>, \<open>gt=\<close>, \<open>lte=\<close>, \<open>lt=\<close>) and a \<open>size:\<close> clause of a
  \<open>gorm\<close> tag whose number does not parse are dropped: the directive is the one the
  remaining clauses of the tag produce, in their order. In particular the tag with such a
  clause between two separators parses as the tag without it. Nothing is promised about an
  empty enum list.
\<close>

theorem tag_parsing_total_drops_unparseable_bounds:
  fixes F :: "'f float64_ops"
  shows "(\<exists>info. mergeTags F j b g d = Inr info)
   \<and> (tag \<noteq> [] \<and> tag \<noteq> ''-'' \<and> Split tag CHR '','' = ps @ bad # qs
        \<and> unparseableBindingBound F bad
      \<longrightarrow> parseBindingTag F tag = foldl (bindingPart F) zeroTagInfo (ps @ qs))
   \<and> (unparseableBindingBound F bad \<and> CHR '','' \<notin> set bad
      \<longrightarrow> parseBindingTag F (pre @ CHR '','' # bad @ CHR '','' # post)
            = parseBindingTag F (pre @ CHR '','' # post))
   \<and> (gtag \<noteq> [] \<and> gtag \<noteq> ''-'' \<and> gtag \<noteq> ''-:all'' \<and> Split gtag CHR '';'' = gps @ gbad # gqs
        \<and> unparseableGormSize gbad
      \<longrightarrow> (parseGORMTag gtag :: 'f TagInfo) = foldl gormPart zeroTagInfo (gps @ gqs))
   \<and> (unparseableGormSize gbad \<and> CHR '';'' \<notin> set gbad
      \<longrightarrow> (parseGORMTag (gpre @ CHR '';'' # gbad @ CHR '';'' # gpost) :: 'f TagInfo)
            = parseGORMTag (gpre @ CHR '';'' # gpost))"
proof (intro conjI impI)
  show "\<exists>info. mergeTags F j b g d = Inr info" by (rule mergeTags_returns)
next
  assume "tag \<noteq> [] \<and> tag \<noteq> ''-'' \<and> Split tag CHR '','' = ps @ bad # qs
            \<and> unparseableBindingBound F bad"
  then show "parseBindingTag F tag = foldl (bindingPart F) zeroTagInfo (ps @ qs)"
    by (simp add: parseBindingTag_clauses bindingPart_unparseable)
next
  assume a: "unparseableBindingBound F bad \<and> CHR '','' \<notin> set bad"
  have "parseBindingTag F (pre @ CHR '','' # bad @ CHR '','' # post)
          = foldl (bindingPart F) zeroTagInfo
              (Split pre CHR '','' @ Split bad CHR '','' @ Split post CHR '','')"
    using has_sep_not_special [OF refl, of _ "CHR '',''"]
    by (subst parseBindingTag_clauses) (auto simp: Split_append)
  also have "\<dots> = foldl (bindingPart F) zeroTagInfo (Split pre CHR '','' @ Split post CHR '','')"
    using a by (simp add: Split_no_sep bindingPart_unparseable)
  also have "\<dots> = parseBindingTag F (pre @ CHR '','' # post)"
    using has_sep_not_special [OF refl, of _ "CHR '',''"]
    by (subst parseBindingTag_clauses) (auto simp: Split_append)
  finally show "parseBindingTag F (pre @ CHR '','' # bad @ CHR '','' # post)
                  = parseBindingTag F (pre @ CHR '','' # post)" .
next
  assume "gtag \<noteq> [] \<and> gtag \<noteq> ''-'' \<and> gtag \<noteq> ''-:all''
            \<and> Split gtag CHR '';'' = gps @ gbad # gqs \<and> unparseableGormSize gbad"
  then show "(parseGORMTag gtag :: 'f TagInfo) = foldl gormPart zeroTagInfo (gps @ gqs)"
    by (simp add: parseGORMTag_clauses gormPart_unparseable)
next
  assume a: "unparseableGormSize gbad \<and> CHR '';'' \<notin> set gbad"
  have "(parseGORMTag (gpre @ CHR '';'' # gbad @ CHR '';'' # gpost) :: 'f TagInfo)
          = foldl gormPart zeroTagInfo
              (Split gpre CHR '';'' @ Split gbad CHR '';'' @ Split gpost CHR '';'')"
    using has_sep_not_special [OF refl, of _ "CHR '';''"] has_semicolon_not_all
    by (subst parseGORMTag_clauses) (auto simp: Split_append)
  also have "\<dots> = foldl gormPart zeroTagInfo (Split gpre CHR '';'' @ Split gpost CHR '';'')"
    using a by (simp add: Split_no_sep gormPart_unparseable)
  also have "\<dots> = parseGORMTag (gpre @ CHR '';'' # gpost)"
    using has_sep_not_special [OF refl, of _ "CHR '';''"] has_semicolon_not_all
    by (subst parseGORMTag_clauses) (auto simp: Split_append)
  finally show "(parseGORMTag (gpre @ CHR '';'' # gbad @ CHR '';'' # gpost) :: 'f TagInfo)
                  = parseGORMTag (gpre @ CHR '';'' # gpost)" .
qed

theorem tag_parsing_total_drops_unparseable_bounds_witness:
  "unparseableBindingBound intFloats ''max=abc'' \<and> CHR '','' \<notin> set ''max=abc''
   \<and> parseBindingTag intFloats ''required,max=abc,min=2''
       = parseBindingTag intFloats ''required,min=2''
   \<and> Required (parseBindingTag intFloats ''required,max=abc,min=2'')
   \<and> MinLength (parseBindingTag intFloats ''required,max=abc,min=2'') = Some 2
   \<and> MaxLength (parseBindingTag intFloats ''required,max=abc,min=2'') = None
   \<and> parseBindingTag intFloats ''gte=x,required''
       = foldl (bindingPart intFloats) zeroTagInfo [''required'']
   \<and> unparseableGormSize ''size:big'' \<and> CHR '';'' \<notin> set ''size:big''
   \<and> (parseGORMTag ''primarykey;size:big;uniqueIndex'' :: int TagInfo)
       = parseGORMTag ''primarykey;uniqueIndex''
   \<and> (parseGORMTag ''primarykey;Size:'' :: int TagInfo)
       = foldl gormPart zeroTagInfo [''primarykey'']"
proof -
  have ub: "unparseableBindingBound intFloats ''max=abc''"
    and ub': "unparseableBindingBound intFloats ''gte=x''"
    by (simp_all add: unparseableBindingBound_def TrimSpace_def isSpace_def HasPrefix_def
        TrimPrefix_def Atoi_def isDigit_def intFloats_def)
  have ug: "unparseableGormSize ''size:big''" and ug': "unparseableGormSize ''Size:''"
    by (simp_all add: unparseableGormSize_def TrimSpace_def isSpace_def HasPrefix_def
        TrimPrefix_def Atoi_def isDigit_def ToLower_def lowerByte_def char_of_eq_iff)
  have vals: "Required (parseBindingTag intFloats ''required,min=2'')"
    "MinLength (parseBindingTag intFloats ''required,min=2'') = Some 2"
    "MaxLength (parseBindingTag intFloats ''required,min=2'') = None"
    by (simp_all add: parseBindingTag_def bindingPart_def TrimSpace_def isSpace_def
        HasPrefix_def TrimPrefix_def Atoi_def isDigit_def digitsValue_def zeroTagInfo_def)
  note main = tag_parsing_total_drops_unparseable_bounds
  have 1: "parseBindingTag intFloats ''required,max=abc,min=2''
             = parseBindingTag intFloats ''required,min=2''"
    using main [of intFloats _ _ _ _ _ _ "''max=abc''" _ "''required''" "''min=2''"] ub
    by simp
  have 2: "parseBindingTag intFloats ''gte=x,required''
             = foldl (bindingPart intFloats) zeroTagInfo [''required'']"
    using main [of intFloats _ _ _ _ "''gte=x,required''" "[]" "''gte=x''" "[''required'']"] ub'
    by simp
  have 3: "(parseGORMTag ''primarykey;size:big;uniqueIndex'' :: int TagInfo)
             = parseGORMTag ''primarykey;uniqueIndex''"
    using main [where ?'f = int and gbad = "''size:big''" and gpre = "''primarykey''"
        and gpost = "''uniqueIndex''"] ug
    by simp
  have 4: "(parseGORMTag ''primarykey;Size:'' :: int TagInfo)
             = foldl gormPart zeroTagInfo [''primarykey'']"
    using main [where ?'f = int and gtag = "''primarykey;Size:''" and gps = "[''primarykey'']"
        and gbad = "''Size:''" and gqs = "[]"] ug'
    by simp
  show ?thesis using ub ug vals 1 2 3 4 by simp
qed

text \<open>
  C8 as stated fails for an empty enum list. In a \<open>docs\<close> tag the clause \<open>enum:\<close> is
  not dropped: it sets the enum to the list holding one empty string, which then replaces
  the enum of the \<open>binding\<close> tag. In a \<open>binding\<close> tag the clause \<open>oneof=\<close> resets the
  enum that an earlier clause of the same tag had set.
\<close>

theorem empty_enum_not_dropped:
  "DocsEnum (parseDocsTag ''enum:'' :: int TagInfo) = [[]]
   \<and> map_sum id Enum (mergeTags intFloats [] ''oneof=a b'' [] ''enum:'') = Inr [[]]
   \<and> map_sum id Enum (mergeTags intFloats [] ''oneof=a b'' [] []) = Inr [''a'', ''b'']
   \<and> Enum (parseBindingTag intFloats ''oneof=a b,oneof='') = []
   \<and> Enum (parseBindingTag intFloats ''oneof=a b'') = [''a'', ''b'']"
  by (simp add: mergeTags_def parseJSONTag_def parseBindingTag_def parseGORMTag_def
      parseDocsTag_def bindingPart_def docsPart_def TrimSpace_def isSpace_def HasPrefix_def
      TrimPrefix_def Fields_def zeroTagInfo_def Let_def)

section \<open>Properties of the constraints applied to a field schema\<close>

lemma attrs_withAttrs [simp]: "attrs (withAttrs f s) = f (attrs s)"
  by (cases s) simp

lemma apply_steps_sType [simp]:
  "sType (applyDescription tags a) = sType a"
  "sType (applyUniqueIndex tags a) = sType a"
  "sType (applyFormat tags a) = sType a"
  "sType (applyEnum tags a) = sType a"
  "sType (applyNumeric tags a) = sType a"
  "sType (applyString tags a) = sType a"
  "sType (applyDefault F tags a) = sType a"
  "sType (applyReadOnly tags a) = sType a"
  "sType (applyDeprecated tags a) = sType a"
  "sType (applyExample F tags a) = sType a"
  by (simp_all add: applyDescription_def applyUniqueIndex_def applyFormat_def applyEnum_def
      applyNumeric_def applyString_def applyDefault_def applyReadOnly_def applyDeprecated_def
      applyExample_def Let_def split: option.splits)

lemma apply_steps_sMaxLength [simp]:
  "sMaxLength (applyDescription tags a) = sMaxLength a"
  "sMaxLength (applyUniqueIndex tags a) = sMaxLength a"
  "sMaxLength (applyFormat tags a) = sMaxLength a"
  "sMaxLength (applyEnum tags a) = sMaxLength a"
  "sMaxLength (applyNumeric tags a) = sMaxLength a"
  "sMaxLength (applyDefault F tags a) = sMaxLength a"
  "sMaxLength (applyReadOnly tags a) = sMaxLength a"
  "sMaxLength (applyDeprecated tags a) = sMaxLength a"
  "sMaxLength (applyExample F tags a) = sMaxLength a"
  by (simp_all add: applyDescription_def applyUniqueIndex_def applyFormat_def applyEnum_def
      applyNumeric_def applyDefault_def applyReadOnly_def applyDeprecated_def
      applyExample_def split: option.splits)

lemma applyString_sMaxLength:
  "sMaxLength (applyString tags a) =
     (if sType a = ''string''
      then (case MaxLength tags of Some m \<Rightarrow> Some m | None \<Rightarrow> GORMSize tags)
      else sMaxLength a)"
  by (simp add: applyString_def Let_def split: option.splits)

lemma applyTagConstraints_MaxLength:
  "sMaxLength (attrs (applyTagConstraints F schema tags)) =
     (if sType (attrs schema) = ''string''
      then (case MaxLength tags of Some m \<Rightarrow> Some m | None \<Rightarrow> GORMSize tags)
      else sMaxLength (attrs schema))"
  by (simp add: applyTagConstraints_def applyString_sMaxLength)

lemma mergeTags_MaxLength:
  fixes F :: "'f float64_ops"
  assumes "mergeTags F j b g d = Inr tags"
  shows "MaxLength tags = MaxLength (parseBindingTag F b)"
    and "GORMSize tags = GORMSize (parseGORMTag g :: 'f TagInfo)"
proof -
  obtain name omitEmpty jsonSkip where "parseJSONTag j = Inr (name, omitEmpty, jsonSkip)"
    using parseJSONTag_returns [of j] by (metis prod_cases3)
  with assms show "MaxLength tags = MaxLength (parseBindingTag F b)"
    and "GORMSize tags = GORMSize (parseGORMTag g :: 'f TagInfo)"
    by (auto simp: mergeTags_def Let_def)
qed

text \<open>
  C5. For a field whose type compiles to a schema of type \<open>string\<close> (not a \<open>$ref\<close>), the
  schema's \<open>maxLength\<close> is the \<open>binding\<close> tag's max length when the tag sets one, whatever
  the \<open>gorm\<close> size is, and the \<open>gorm\<close> size only when the \<open>binding\<close> tag sets none.
\<close>

theorem gorm_size_fills_maxLength_only_if_unset:
  fixes F :: "'f float64_ops"
  assumes "mergeTags F j b g d = Inr tags"
    and "typeToSchema F n env t registry = Inr (baseSchema, registry')"
    and "sRef (attrs baseSchema) = []"
    and "sType (attrs baseSchema) = ''string''"
  shows "\<exists>fieldSchema. fieldToSchema F (Suc n) env t tags registry = Inr (fieldSchema, registry')
           \<and> sMaxLength (attrs fieldSchema)
               = (case MaxLength (parseBindingTag F b) of
                    Some m \<Rightarrow> Some m
                  | None \<Rightarrow> GORMSize (parseGORMTag g :: 'f TagInfo))"
proof -
  have "fieldToSchema F (Suc n) env t tags registry
          = Inr (applyTagConstraints F baseSchema tags, registry')"
    using assms(2,3) by simp
  moreover have "sMaxLength (attrs (applyTagConstraints F baseSchema tags))
      = (case MaxLength (parseBindingTag F b) of
           Some m \<Rightarrow> Some m | None \<Rightarrow> GORMSize (parseGORMTag g :: 'f TagInfo))"
    using assms(4) mergeTags_MaxLength [OF assms(1)]
    by (simp add: applyTagConstraints_MaxLength split: option.splits)
  ultimately show ?thesis by blast
qed

lemma typeToSchema_string_example:
  "typeToSchema F (Suc 0) nodeEnv 2 registry = Inr (typedSchema ''string'' [], registry)"
  by (simp add: nodeEnv_def typeTable_def basicType_def invalidType_def specialTypeSchema_def)

theorem gorm_size_fills_maxLength_only_if_unset_witness:
  "(\<exists>tags fieldSchema.
      mergeTags intFloats ''name'' ''required,max=100'' ''size:200'' [] = Inr tags
      \<and> fieldToSchema intFloats (Suc (Suc 0)) nodeEnv 2 tags newTypeRegistry
          = Inr (fieldSchema, newTypeRegistry)
      \<and> sMaxLength (attrs fieldSchema) = Some 100)
   \<and> (\<exists>tags fieldSchema.
      mergeTags intFloats ''email'' ''required,email'' ''size:200;uniqueIndex'' [] = Inr tags
      \<and> fieldToSchema intFloats (Suc (Suc 0)) nodeEnv 2 tags newTypeRegistry
          = Inr (fieldSchema, newTypeRegistry)
      \<and> sMaxLength (attrs fieldSchema) = Some 200)"
proof -
  have a: "sRef (attrs (typedSchema ''string'' [] :: int SchemaObject)) = []"
    "sType (attrs (typedSchema ''string'' [] :: int SchemaObject)) = ''string''"
    by (simp_all add: typedSchema_def zeroAttrs_def)
  have b1: "MaxLength (parseBindingTag intFloats ''required,max=100'') = Some 100"
    and b2: "MaxLength (parseBindingTag intFloats ''required,email'') = None"
    by (simp_all add: parseBindingTag_def bindingPart_def TrimSpace_def isSpace_def
        HasPrefix_def TrimPrefix_def Atoi_def isDigit_def digitsValue_def zeroTagInfo_def)
  have g2: "GORMSize (parseGORMTag ''size:200;uniqueIndex'' :: int TagInfo) = Some 200"
    by (simp add: parseGORMTag_def gormPart_def TrimSpace_def isSpace_def ToLower_def
        lowerByte_def char_of_eq_iff HasPrefix_def TrimPrefix_def Atoi_def isDigit_def
        digitsValue_def zeroTagInfo_def)
  obtain t1 where m1: "mergeTags intFloats ''name'' ''required,max=100'' ''size:200'' [] = Inr t1"
    using mergeTags_returns by blast
  obtain t2 where m2:
    "mergeTags intFloats ''email'' ''required,email'' ''size:200;uniqueIndex'' [] = Inr t2"
    using mergeTags_returns by blast
  show ?thesis
    using gorm_size_fills_maxLength_only_if_unset
            [OF m1 typeToSchema_string_example [of intFloats newTypeRegistry] a]
          gorm_size_fills_maxLength_only_if_unset
            [OF m2 typeToSchema_string_example [of intFloats newTypeRegistry] a]
          m1 m2 b1 b2 g2
    by auto
qed


section \<open>Evaluating the model on the concrete type tables\<close>

lemmas env_eval = typeTable_def basicType_def ptrTo_def sliceOf_def structType_def timeType_def
  field_def embedded_def invalidType_def

lemmas tag_eval = mergeTags_def parseJSONTag_def parseBindingTag_def parseGORMTag_def
  parseDocsTag_def bindingPart_def gormPart_def docsPart_def TrimSpace_def isSpace_def
  HasPrefix_def TrimPrefix_def Fields_def ToLower_def lowerByte_def char_of_eq_iff
  Atoi_def isDigit_def digitsValue_def zeroTagInfo_def Let_def

lemmas schema_eval = specialTypeSchema_def embeddedStruct_def fieldTags_def TagGet_def
  IsExported_def propertyName_def objectSchema_def typedSchema_def zeroAttrs_def zeroSchema_def
  SchemaRef_def RefPath_def schemaName_def Has_def Get_def isSeen_def markSeen_def
  unmarkSeen_def Register_def newTypeRegistry_def refWrapper_def applyTagConstraints_def
  applyDescription_def applyUniqueIndex_def applyFormat_def applyEnum_def applyNumeric_def
  applyString_def applyDefault_def applyReadOnly_def applyDeprecated_def applyExample_def
  propertyNames_def


section \<open>Properties of the compiler\<close>

lemma deref_Suc: "deref n env t = Inr t' \<Longrightarrow> deref (Suc n) env t = Inr t'"
  by (induction n env t rule: deref.induct) (auto split: if_splits)

lemma deref_mono:
  assumes "deref n env t = Inr t'" and "n \<le> m"
  shows "deref m env t = Inr t'"
  using assms(2,1) by (induction rule: dec_induct) (simp_all add: deref_Suc del: deref.simps)

lemma deref_not_ptr: "deref n env t = Inr t' \<Longrightarrow> Kind (env t') \<noteq> KPtr"
  by (induction n env t rule: deref.induct) (auto split: if_splits)

lemma deref_fixed: "Kind (env t) \<noteq> KPtr \<Longrightarrow> deref (Suc n) env t = Inr t"
  by simp

lemma deref_result: "deref n env t = Inr t' \<Longrightarrow> deref (Suc k) env t' = Inr t'"
  using deref_not_ptr by simp

lemma deref_ptr: "Kind (env p) = KPtr \<Longrightarrow> deref (Suc n) env p = deref n env (Elem (env p))"
  by simp

lemma schemaName_deref:
  "deref n env t0 = Inr t \<Longrightarrow> schemaName n env t0 = Inr (bareName env t)"
  by (simp add: schemaName_def bareName_def)

lemma structToSchema_registered:
  assumes "deref (Suc n) env t0 = Inr t" and "Has registry (bareName env t)"
  shows "structToSchema F (Suc n) env t0 registry = Inr (SchemaRef (bareName env t), registry)"
  using assms deref_result [OF assms(1), of n]
  by (simp add: schemaName_deref del: deref.simps)

lemma structToSchema_in_progress:
  assumes "deref (Suc n) env t0 = Inr t" and "isSeen registry t"
  shows "structToSchema F (Suc n) env t0 registry = Inr (SchemaRef (bareName env t), registry)"
  using assms deref_result [OF assms(1), of n]
  by (simp add: schemaName_deref del: deref.simps)

lemma structToSchema_returns_ref:
  assumes "structToSchema F n env t0 registry = Inr (s, registry')"
  shows "\<exists>t. deref n env t0 = Inr t \<and> s = SchemaRef (bareName env t)
           \<and> (Has registry' (bareName env t) \<or> (isSeen registry t \<and> registry' = registry))"
proof (cases n)
  case 0
  with assms show ?thesis by simp
next
  case (Suc k)
  with assms obtain t where t: "deref (Suc k) env t0 = Inr t"
    by (auto split: sum.splits simp del: deref.simps)
  note dr = deref_result [OF t, of k]
  from assms show ?thesis
    unfolding Suc
    using t dr
    by (auto simp: schemaName_deref Has_def Register_def unmarkSeen_def
        split: sum.splits if_splits simp del: deref.simps)
qed

lemma typeToSchema_struct:
  assumes "deref (Suc n) env t0 = Inr t" and "Kind (env t) = KStruct"
    and "(specialTypeSchema env t :: 'f SchemaObject option) = None"
  shows "typeToSchema (F :: 'f float64_ops) (Suc n) env t0 registry
           = structToSchema F n env t registry"
  using assms by (simp del: deref.simps)


lemma SchemaRef_flags:
  "\<not> sNullable (attrs (SchemaRef nm)) \<and> \<not> sReadOnly (attrs (SchemaRef nm))"
  by (simp add: SchemaRef_def zeroAttrs_def)

lemma typedSchema_flags:
  "\<not> sNullable (attrs (typedSchema ty fmt)) \<and> \<not> sReadOnly (attrs (typedSchema ty fmt))"
  by (simp add: typedSchema_def zeroAttrs_def)

lemma specialTypeSchema_flags:
  "specialTypeSchema env t = Some s \<Longrightarrow> \<not> sNullable (attrs s) \<and> \<not> sReadOnly (attrs s)"
  by (auto simp: specialTypeSchema_def typedSchema_flags split: if_splits)

lemma typeToSchema_not_nullable:
  assumes "typeToSchema F n env t0 registry = Inr (s, registry')"
  shows "\<not> sNullable (attrs s) \<and> \<not> sReadOnly (attrs s)"
proof (cases n)
  case 0
  with assms show ?thesis by simp
next
  case (Suc k)
  from assms obtain t where t: "deref (Suc k) env t0 = Inr t"
    unfolding Suc by (auto split: sum.splits simp del: deref.simps)
  show ?thesis
  proof (cases "specialTypeSchema env t :: 'a SchemaObject option")
    case (Some sp)
    with assms t have "s = sp" unfolding Suc by (simp del: deref.simps)
    with Some show ?thesis using specialTypeSchema_flags by blast
  next
    case None
    show ?thesis
    proof (cases "Kind (env t) = KStruct")
      case True
      with assms t None have "structToSchema F k env t registry = Inr (s, registry')"
        unfolding Suc by (simp del: deref.simps)
      then show ?thesis
        using structToSchema_returns_ref SchemaRef_flags by metis
    next
      case False
      with assms t None show ?thesis
        unfolding Suc
        by (auto simp: typedSchema_flags zeroSchema_def zeroAttrs_def Let_def
            split: sum.splits if_splits simp del: deref.simps)
    qed
  qed
qed


lemma selfEmbed_facts:
  "Kind (selfEmbedEnv 0) = KStruct"
  "StructFields (selfEmbedEnv 0) = [embedded ''Node'' (Suc 0), field ''Val'' 2 []]"
  "Kind (selfEmbedEnv (Suc 0)) = KPtr" "Elem (selfEmbedEnv (Suc 0)) = 0"
  "TName (selfEmbedEnv 0) = ''Node''"
  "specialTypeSchema selfEmbedEnv 0 = None"
  by (simp_all add: selfEmbedEnv_def env_eval specialTypeSchema_def)

lemma selfEmbed_embedded:
  "IsExported (embedded ''Node'' (Suc 0))"
  "embeddedStruct (Suc n) selfEmbedEnv (embedded ''Node'' (Suc 0))
     = (if n = 0 then Inl OutOfFuel else Inr (Some 0))"
proof -
  show "IsExported (embedded ''Node'' (Suc 0))"
    by (simp add: IsExported_def embedded_def)
  show "embeddedStruct (Suc n) selfEmbedEnv (embedded ''Node'' (Suc 0))
     = (if n = 0 then Inl OutOfFuel else Inr (Some 0))"
  proof (cases n)
    case 0
    then show ?thesis
      by (simp add: embeddedStruct_def embedded_def selfEmbed_facts)
  next
    case (Suc k)
    then show ?thesis
      by (simp add: embeddedStruct_def embedded_def selfEmbed_facts)
  qed
qed

lemma selfEmbed_fields_never_return:
  "processStructFields F n selfEmbedEnv 0 schema registry = Inl OutOfFuel
   \<and> structFieldsLoop F n selfEmbedEnv [embedded ''Node'' (Suc 0), field ''Val'' 2 []]
         schema registry = Inl OutOfFuel"
proof (induction n arbitrary: schema registry)
  case 0
  show ?case by simp
next
  case (Suc n)
  have ih: "processStructFields F n selfEmbedEnv 0 schema registry = Inl OutOfFuel"
    and ih': "structFieldsLoop F n selfEmbedEnv [embedded ''Node'' (Suc 0), field ''Val'' 2 []]
         schema registry = Inl OutOfFuel"
    using Suc by blast+
  have loop: "structFieldsLoop F (Suc n) selfEmbedEnv
                [embedded ''Node'' (Suc 0), field ''Val'' 2 []] schema registry = Inl OutOfFuel"
    by (subst structFieldsLoop.simps) (simp add: selfEmbed_embedded ih)
  have "processStructFields F (Suc n) selfEmbedEnv 0 schema registry = Inl OutOfFuel"
    by (simp add: selfEmbed_facts ih')
  with loop show ?case by blast
qed

text \<open>
  C1 on the code. A struct that embeds a pointer to itself, \<open>type Node struct { *Node; Val
  int }\<close>, is compiled against a new registry. The embedded field is hoisted by
  \<open>processStructFields\<close>, which walks the fields of \<open>Node\<close> again without asking the
  registry whether \<open>Node\<close> is in progress. No amount of fuel lets the call return.
\<close>

theorem self_embedding_struct_never_returns:
  "typeToSchema F n selfEmbedEnv 0 newTypeRegistry = Inl OutOfFuel"
proof (cases n)
  case 0
  then show ?thesis by simp
next
  case n: (Suc k)
  show ?thesis
  proof (cases k)
    case 0
    with n show ?thesis by (simp add: selfEmbed_facts)
  next
    case (Suc j)
    have "processStructFields F j selfEmbedEnv 0 objectSchema (markSeen newTypeRegistry 0)
            = Inl OutOfFuel"
      using selfEmbed_fields_never_return by blast
    then show ?thesis
      unfolding n Suc
      by (simp add: selfEmbed_facts schemaName_def Has_def isSeen_def newTypeRegistry_def
            del: processStructFields.simps)
  qed
qed


lemma registry_step [simp]:
  "dom (schemas (unmarkSeen (Register r name schema) t)) = insert name (dom (schemas r))"
  "dom (schemas (markSeen r t)) = dom (schemas r)"
  by (auto simp: unmarkSeen_def Register_def markSeen_def)

lemma registry_grows_all:
  fixes F :: "'f float64_ops"
  shows "(\<forall>t r s r'. typeToSchema F n env t r = Inr (s, r')
            \<longrightarrow> dom (schemas r) \<subseteq> dom (schemas r'))
       \<and> (\<forall>t r s r'. structToSchema F n env t r = Inr (s, r')
            \<longrightarrow> dom (schemas r) \<subseteq> dom (schemas r'))
       \<and> (\<forall>t sc r s r'. processStructFields F n env t sc r = Inr (s, r')
            \<longrightarrow> dom (schemas r) \<subseteq> dom (schemas r'))
       \<and> (\<forall>fs sc r s r'. structFieldsLoop F n env fs sc r = Inr (s, r')
            \<longrightarrow> dom (schemas r) \<subseteq> dom (schemas r'))
       \<and> (\<forall>t tg r s r'. fieldToSchema F n env t tg r = Inr (s, r')
            \<longrightarrow> dom (schemas r) \<subseteq> dom (schemas r'))"
proof (induction n)
  case 0
  show ?case by simp
next
  case (Suc n)
  have T: "dom (schemas r) \<subseteq> dom (schemas r')"
    if "typeToSchema F n env t r = Inr (s, r')" for t r s r'
    using Suc that by (elim conjE allE [of _ t] allE [of _ r] allE [of _ s] allE [of _ r']) simp
  have S: "dom (schemas r) \<subseteq> dom (schemas r')"
    if "structToSchema F n env t r = Inr (s, r')" for t r s r'
    using Suc that by (elim conjE allE [of _ t] allE [of _ r] allE [of _ s] allE [of _ r']) simp
  have P: "dom (schemas r) \<subseteq> dom (schemas r')"
    if "processStructFields F n env t sc r = Inr (s, r')" for t sc r s r'
    using Suc that by (elim conjE) (metis (no_types))
  have L: "dom (schemas r) \<subseteq> dom (schemas r')"
    if "structFieldsLoop F n env fs sc r = Inr (s, r')" for fs sc r s r'
    using Suc that by (elim conjE) (metis (no_types))
  have Fd: "dom (schemas r) \<subseteq> dom (schemas r')"
    if "fieldToSchema F n env t tg r = Inr (s, r')" for t tg r s r'
    using Suc that by (elim conjE) (metis (no_types))
  have T': "dom (schemas r) \<subseteq> dom (schemas r')"
    if a: "typeToSchema F (Suc n) env t r = Inr (s, r')" for t r s r'
  proof -
    from a obtain x where x: "deref (Suc n) env t = Inr x"
      by (auto split: sum.splits simp del: deref.simps)
    show ?thesis
    proof (cases "specialTypeSchema env x :: 'f SchemaObject option")
      case (Some sp)
      with a x show ?thesis by (simp del: deref.simps)
    next
      case None
      consider (arr) "Kind (env x) \<in> {KSlice, KArray}" | (map) "Kind (env x) = KMap"
        | (str) "Kind (env x) = KStruct" | (other) "Kind (env x) \<notin> {KSlice, KArray, KMap, KStruct}"
        by blast
      then show ?thesis
      proof cases
        case arr
        with a x None obtain es where "typeToSchema F n env (Elem (env x)) r = Inr (es, r')"
          by (auto simp del: deref.simps split: sum.splits if_splits)
        then show ?thesis by (rule T)
      next
        case map
        with a x None obtain es where "typeToSchema F n env (Elem (env x)) r = Inr (es, r')"
          by (auto simp del: deref.simps split: sum.splits if_splits)
        then show ?thesis by (rule T)
      next
        case str
        with a x None have "structToSchema F n env x r = Inr (s, r')"
          by (simp del: deref.simps)
        then show ?thesis by (rule S)
      next
        case other
        with a x None show ?thesis
          by (auto simp del: deref.simps simp: Let_def split: if_splits)
      qed
    qed
  qed
  have S': "dom (schemas r) \<subseteq> dom (schemas r')"
    if a: "structToSchema F (Suc n) env t r = Inr (s, r')" for t r s r'
  proof -
    from a obtain x where x: "deref (Suc n) env t = Inr x"
      by (auto split: sum.splits simp del: deref.simps)
    then have nm: "schemaName (Suc n) env x = Inr (bareName env x)"
      by (intro schemaName_deref deref_result)
    show ?thesis
    proof (cases "Has r (bareName env x) \<or> isSeen r x")
      case True
      with a x nm have "r' = r" by (auto simp del: deref.simps split: if_splits)
      then show ?thesis by simp
    next
      case False
      with a x nm obtain sc r1 where
        p: "processStructFields F n env x objectSchema (markSeen r x) = Inr (sc, r1)"
        and r': "r' = unmarkSeen (Register r1 (bareName env x) sc) x"
        by (auto simp del: deref.simps split: sum.splits)
      from P [OF p] show ?thesis unfolding r' by auto
    qed
  qed
  have P': "dom (schemas r) \<subseteq> dom (schemas r')"
    if a: "processStructFields F (Suc n) env t sc r = Inr (s, r')" for t sc r s r'
  proof -
    from a have "structFieldsLoop F n env (StructFields (env t)) sc r = Inr (s, r')"
      by (simp split: if_splits)
    then show ?thesis by (rule L)
  qed
  have L': "dom (schemas r) \<subseteq> dom (schemas r')"
    if a: "structFieldsLoop F (Suc n) env fs sc r = Inr (s, r')" for fs sc r s r'
    using a
  proof (induction fs arbitrary: sc r)
    case Nil
    then show ?case by simp
  next
    case (Cons f fs)
    show ?case
    proof (cases "IsExported f")
      case False
      with Cons show ?thesis by simp
    next
      case True
      from Cons.prems True obtain e where e: "embeddedStruct (Suc n) env f = Inr e"
        by (auto split: sum.splits)
      show ?thesis
      proof (cases e)
        case (Some et)
        with Cons.prems True e obtain sc1 r1 where
          p: "processStructFields F n env et sc r = Inr (sc1, r1)"
          and l: "structFieldsLoop F (Suc n) env fs sc1 r1 = Inr (s, r')"
          by (auto split: sum.splits)
        from P [OF p] Cons.IH [OF l] show ?thesis by blast
      next
        case None
        with Cons.prems True e obtain tagInfo where tg: "fieldTags F f = Inr tagInfo"
          by (auto split: sum.splits)
        show ?thesis
        proof (cases "JSONSkip tagInfo \<or> GORMSkip tagInfo \<or> Hidden tagInfo")
          case skip: True
          with Cons.prems \<open>IsExported f\<close> e None tg
          have "structFieldsLoop F (Suc n) env fs sc r = Inr (s, r')" by simp
          then show ?thesis by (rule Cons.IH)
        next
          case noskip: False
          with Cons.prems \<open>IsExported f\<close> e None tg obtain fsch r1 sc1 where
            f: "fieldToSchema F n env (FType f) tagInfo r = Inr (fsch, r1)"
            and l: "structFieldsLoop F (Suc n) env fs sc1 r1 = Inr (s, r')"
            by (auto split: sum.splits simp: Let_def)
          from Fd [OF f] Cons.IH [OF l] show ?thesis by blast
        qed
      qed
    qed
  qed
  have Fd': "dom (schemas r) \<subseteq> dom (schemas r')"
    if a: "fieldToSchema F (Suc n) env t tg r = Inr (s, r')" for t tg r s r'
  proof -
    from a obtain b where "typeToSchema F n env t r = Inr (b, r')"
      by (auto split: sum.splits if_splits)
    then show ?thesis by (rule T)
  qed
  show ?case
    using T' S' P' L' Fd' by (intro conjI allI impI)
qed


text \<open>
  C3 on the code. The two struct types named \<open>Item\<close> of \<open>itemsEnv\<close> are compiled one
  after the other against a new registry. The first is registered as \<open>Item\<close> with its
  property \<open>sku\<close>. Compiling the second returns the same reference and leaves the registry
  as it is: there is one entry, the first type's, and no schema has the second type's
  property \<open>price\<close>. Both have the schema name \<open>Item\<close>; the package is not consulted.
\<close>

theorem same_name_types_share_one_schema:
  "TPkgPath (itemsEnv 0) \<noteq> TPkgPath (itemsEnv 1)
   \<and> schemaName 6 itemsEnv 0 = Inr ''Item'' \<and> schemaName 6 itemsEnv 1 = Inr ''Item''
   \<and> (case typeToSchema intFloats 6 itemsEnv 0 newTypeRegistry of
         Inl e \<Rightarrow> False
       | Inr (s1, reg1) \<Rightarrow>
           s1 = SchemaRef ''Item''
           \<and> map_option propertyNames (Get reg1 ''Item'') = Some {''sku''}
           \<and> typeToSchema intFloats 6 itemsEnv 1 reg1 = Inr (SchemaRef ''Item'', reg1)
           \<and> dom (schemas reg1) = {''Item''})"
  by (simp add: itemsEnv_def env_eval tag_eval schema_eval eval_nat_numeral)

text \<open>
  Scenario B of the specification, from the repository's tests: \<open>TestNode\<close> with a field
  \<open>Children []TestNode\<close> compiles, and the items of \<open>children\<close> are a reference to
  \<open>TestNode\<close>.
\<close>

lemma testNode_children_is_ref:
  "case typeToSchema intFloats 8 nodeEnv 0 newTypeRegistry of
     Inl e \<Rightarrow> False
   | Inr (s, reg) \<Rightarrow>
       s = SchemaRef ''TestNode''
       \<and> map_option (\<lambda>schema. map_option Items (map_of (Properties schema) ''children''))
            (Get reg ''TestNode'') = Some (Some (Some (SchemaRef ''TestNode'')))"
  by (simp add: nodeEnv_def env_eval tag_eval schema_eval eval_nat_numeral)


text \<open>
  C10, as the code has it. An anonymous struct type gets the schema name
  \<open>AnonymousStruct\<close>. Compiling one that is not in progress registers it under that name,
  and from then on \<open>structToSchema\<close> on any anonymous struct type, and \<open>typeToSchema\<close> on
  any anonymous struct type that is not a special type, returns the reference to
  \<open>AnonymousStruct\<close> and leaves the registry as it is: the fields of the second type are
  not compiled. On a special type (\<open>time.Time\<close>, or a type that implements
  \<open>encoding.TextMarshaler\<close>) \<open>typeToSchema\<close> returns the special type's schema before it
  looks at the registry.
\<close>

theorem anonymous_structs_share_one_schema:
  fixes F :: "'f float64_ops"
  shows "(deref n env t0 = Inr t \<and> TName (env t) = []
          \<longrightarrow> schemaName n env t0 = Inr ''AnonymousStruct'')
       \<and> (structToSchema F n env t0 registry = Inr (s, registry1) \<and> deref n env t0 = Inr t
            \<and> TName (env t) = [] \<and> \<not> isSeen registry t
          \<longrightarrow> s = SchemaRef ''AnonymousStruct'' \<and> Has registry1 ''AnonymousStruct'')
       \<and> (deref (Suc n) env u0 = Inr u \<and> TName (env u) = []
            \<and> Has registry2 ''AnonymousStruct''
          \<longrightarrow> structToSchema F (Suc n) env u0 registry2
                = Inr (SchemaRef ''AnonymousStruct'', registry2))
       \<and> (deref (Suc n) env u0 = Inr u \<and> TName (env u) = [] \<and> Kind (env u) = KStruct
            \<and> (specialTypeSchema env u :: 'f SchemaObject option) = None
            \<and> Has registry2 ''AnonymousStruct''
          \<longrightarrow> typeToSchema F (Suc (Suc n)) env u0 registry2
                = Inr (SchemaRef ''AnonymousStruct'', registry2))
       \<and> (deref (Suc n) env v0 = Inr v \<and> specialTypeSchema env v = Some special
          \<longrightarrow> typeToSchema F (Suc n) env v0 registry3 = Inr (special, registry3))"
proof (intro conjI impI)
  assume "deref n env t0 = Inr t \<and> TName (env t) = []"
  then show "schemaName n env t0 = Inr ''AnonymousStruct''"
    by (simp add: schemaName_def)
next
  assume a: "structToSchema F n env t0 registry = Inr (s, registry1) \<and> deref n env t0 = Inr t
            \<and> TName (env t) = [] \<and> \<not> isSeen registry t"
  then have "s = SchemaRef ''AnonymousStruct'' \<and> Has registry1 ''AnonymousStruct''"
    using structToSchema_returns_ref [of F n env t0 registry s registry1]
    by (auto simp: bareName_def)
  then show "s = SchemaRef ''AnonymousStruct''" and "Has registry1 ''AnonymousStruct''"
    by blast+
next
  assume a: "deref (Suc n) env u0 = Inr u \<and> TName (env u) = []
            \<and> Has registry2 ''AnonymousStruct''"
  then have "Has registry2 (bareName env u)" by (simp add: bareName_def)
  from structToSchema_registered [of n env u0 u registry2 F, OF _ this] a
  show "structToSchema F (Suc n) env u0 registry2
               = Inr (SchemaRef ''AnonymousStruct'', registry2)"
    by (simp add: bareName_def del: deref.simps)
next
  assume a: "deref (Suc n) env u0 = Inr u \<and> TName (env u) = [] \<and> Kind (env u) = KStruct
            \<and> (specialTypeSchema env u :: 'f SchemaObject option) = None
            \<and> Has registry2 ''AnonymousStruct''"
  then have d0: "deref (Suc n) env u0 = Inr u" by blast
  have d: "deref (Suc (Suc n)) env u0 = Inr u" using d0 by (rule deref_Suc)
  have d': "deref (Suc n) env u = Inr u" using d0 by (rule deref_result)
  have h: "Has registry2 (bareName env u)" using a by (simp add: bareName_def)
  have "typeToSchema F (Suc (Suc n)) env u0 registry2 = structToSchema F (Suc n) env u registry2"
    using a by (intro typeToSchema_struct [OF d]) blast+
  also have "\<dots> = Inr (SchemaRef ''AnonymousStruct'', registry2)"
    using structToSchema_registered [OF d' h, of F] a by (simp add: bareName_def del: deref.simps)
  finally show "typeToSchema F (Suc (Suc n)) env u0 registry2
                  = Inr (SchemaRef ''AnonymousStruct'', registry2)" .
next
  assume "deref (Suc n) env v0 = Inr v \<and> specialTypeSchema env v = Some special"
  then show "typeToSchema F (Suc n) env v0 registry3 = Inr (special, registry3)"
    by (simp del: deref.simps)
qed

theorem anonymous_structs_share_one_schema_witness:
  "\<exists>s reg1. structToSchema intFloats 5 anonEnv 0 newTypeRegistry = Inr (s, reg1)
      \<and> schemaName 5 anonEnv 0 = Inr ''AnonymousStruct''
      \<and> s = SchemaRef ''AnonymousStruct'' \<and> Has reg1 ''AnonymousStruct''
      \<and> map_option propertyNames (Get reg1 ''AnonymousStruct'') = Some {''A''}
      \<and> structToSchema intFloats 6 anonEnv 1 reg1 = Inr (SchemaRef ''AnonymousStruct'', reg1)
      \<and> typeToSchema intFloats 7 anonEnv 1 reg1 = Inr (SchemaRef ''AnonymousStruct'', reg1)
      \<and> typeToSchema intFloats 6 anonEnv 5 reg1 = Inr (typedSchema ''string'' [], reg1)"
proof -
  obtain s reg1 where e: "structToSchema intFloats 5 anonEnv 0 newTypeRegistry = Inr (s, reg1)"
    and p: "map_option propertyNames (Get reg1 ''AnonymousStruct'') = Some {''A''}"
  proof -
    have "\<exists>s reg1. structToSchema intFloats 5 anonEnv 0 newTypeRegistry = Inr (s, reg1)
            \<and> map_option propertyNames (Get reg1 ''AnonymousStruct'') = Some {''A''}"
      by (simp add: anonEnv_def env_eval tag_eval schema_eval eval_nat_numeral)
    then show ?thesis by (elim exE conjE) (rule that)
  qed
  have d0: "deref 5 anonEnv 0 = Inr 0" "TName (anonEnv 0) = []" "\<not> isSeen (newTypeRegistry :: int TypeRegistry) 0"
    by (simp_all add: anonEnv_def env_eval schema_eval eval_nat_numeral)
  have d1: "deref (Suc 5) anonEnv 1 = Inr 1" "TName (anonEnv 1) = []"
    "Kind (anonEnv 1) = KStruct" "(specialTypeSchema anonEnv 1 :: int SchemaObject option) = None"
    and d5: "deref (Suc 5) anonEnv 5 = Inr 5"
    "specialTypeSchema anonEnv 5 = Some (typedSchema ''string'' [] :: int SchemaObject)"
    by (simp_all add: anonEnv_def env_eval schema_eval eval_nat_numeral)
  note main = anonymous_structs_share_one_schema
    [where F = intFloats and n = 5 and env = anonEnv and ?t0.0 = 0 and t = 0
       and registry = newTypeRegistry and s = s and ?registry1.0 = reg1
       and ?u0.0 = 1 and u = 1 and ?registry2.0 = reg1
       and ?v0.0 = 5 and v = 5 and ?registry3.0 = reg1
       and special = "typedSchema ''string'' []"]
  from e d0 main have n: "schemaName 5 anonEnv 0 = Inr ''AnonymousStruct''"
    and s: "s = SchemaRef ''AnonymousStruct''" and h: "Has reg1 ''AnonymousStruct''"
    by (simp_all del: deref.simps)
  from d1 h main
  have "structToSchema intFloats (Suc 5) anonEnv 1 reg1 = Inr (SchemaRef ''AnonymousStruct'', reg1)"
    and "typeToSchema intFloats (Suc (Suc 5)) anonEnv 1 reg1
           = Inr (SchemaRef ''AnonymousStruct'', reg1)"
    by (simp_all del: deref.simps typeToSchema.simps structToSchema.simps)
  then have r: "structToSchema intFloats 6 anonEnv 1 reg1 = Inr (SchemaRef ''AnonymousStruct'', reg1)"
    "typeToSchema intFloats 7 anonEnv 1 reg1 = Inr (SchemaRef ''AnonymousStruct'', reg1)"
    by (simp_all add: eval_nat_numeral del: deref.simps typeToSchema.simps structToSchema.simps)
  from d5 main
  have "typeToSchema intFloats (Suc 5) anonEnv 5 reg1 = Inr (typedSchema ''string'' [], reg1)"
    by (simp del: deref.simps typeToSchema.simps structToSchema.simps)
  then have "typeToSchema intFloats 6 anonEnv 5 reg1 = Inr (typedSchema ''string'' [], reg1)"
    by (simp add: eval_nat_numeral del: deref.simps typeToSchema.simps structToSchema.simps)
  with r e p n s h show ?thesis
    by (intro exI [of _ s] exI [of _ reg1]) (simp del: typeToSchema.simps structToSchema.simps)
qed

text \<open>
  C10 as stated fails for an anonymous struct type that is a special type. With
  \<open>AnonymousStruct\<close> registered, compiling \<open>struct { time.Time; B string }\<close> returns the
  schema \<open>{type: string}\<close>, which is not a reference to the registered schema.
\<close>

theorem special_anonymous_struct_is_no_ref:
  "TName (anonEnv 5) = [] \<and> Kind (anonEnv 5) = KStruct
   \<and> Has anonRegistry ''AnonymousStruct''
   \<and> typeToSchema intFloats 6 anonEnv 5 anonRegistry
       = Inr (typedSchema ''string'' [], anonRegistry)
   \<and> (typedSchema ''string'' [] :: int SchemaObject) \<noteq> SchemaRef ''AnonymousStruct''"
  by (simp add: anonRegistry_def anonEnv_def env_eval tag_eval schema_eval eval_nat_numeral)


section \<open>No compiled schema is nullable\<close>

lemma noNullable_iff:
  "noNullable s \<longleftrightarrow>
     \<not> sNullable (attrs s)
     \<and> (\<forall>x. Items s = Some x \<longrightarrow> noNullable x)
     \<and> (\<forall>k x. (k, x) \<in> set (Properties s) \<longrightarrow> noNullable x)
     \<and> (\<forall>x. AdditionalProperties s = Some x \<longrightarrow> noNullable x)
     \<and> (\<forall>x \<in> set (AllOf s). noNullable x)
     \<and> (\<forall>x \<in> set (OneOf s). noNullable x)
     \<and> (\<forall>x \<in> set (AnyOf s). noNullable x)"
  by (cases s) (auto simp: list_all_iff split: option.splits)


lemma zeroAttrs_not_nullable [simp]: "\<not> sNullable zeroAttrs"
  by (simp add: zeroAttrs_def)

lemma noNullable_basic [simp]:
  "noNullable (typedSchema ty fmt)" "noNullable zeroSchema" "noNullable (SchemaRef name)"
  "noNullable objectSchema"
  by (simp_all add: typedSchema_def zeroSchema_def SchemaRef_def objectSchema_def zeroAttrs_def)

lemma noNullable_container [simp]:
  "noNullable (SchemaObject (zeroAttrs\<lparr>sType := ty\<rparr>) (Some e) [] None [] [] []) = noNullable e"
  "noNullable (SchemaObject (zeroAttrs\<lparr>sType := ty\<rparr>) None [] (Some e) [] [] []) = noNullable e"
  by (simp_all add: zeroAttrs_def)


lemma noNullable_withAttrs:
  "sNullable (f (attrs s)) = sNullable (attrs s) \<Longrightarrow> noNullable (withAttrs f s) = noNullable s"
  by (cases s) simp


lemma apply_steps_sNullable [simp]:
  "sNullable (applyDescription tags a) = sNullable a"
  "sNullable (applyUniqueIndex tags a) = sNullable a"
  "sNullable (applyFormat tags a) = sNullable a"
  "sNullable (applyEnum tags a) = sNullable a"
  "sNullable (applyNumeric tags a) = sNullable a"
  "sNullable (applyString tags a) = sNullable a"
  "sNullable (applyDefault F tags a) = sNullable a"
  "sNullable (applyReadOnly tags a) = sNullable a"
  "sNullable (applyDeprecated tags a) = sNullable a"
  "sNullable (applyExample F tags a) = sNullable a"
  by (simp_all add: applyDescription_def applyUniqueIndex_def applyFormat_def applyEnum_def
      applyNumeric_def applyString_def applyDefault_def applyReadOnly_def applyDeprecated_def
      applyExample_def Let_def split: option.splits)

lemma noNullable_applyTagConstraints [simp]:
  "noNullable (applyTagConstraints F schema tags) = noNullable schema"
  unfolding applyTagConstraints_def by (rule noNullable_withAttrs) simp

lemma noNullable_refWrapper [simp]: "noNullable (refWrapper base tags) = noNullable base"
  by (simp add: refWrapper_def zeroAttrs_def)

lemma registryNoNullable_steps [simp]:
  "registryNoNullable (markSeen r t) = registryNoNullable r"
  "registryNoNullable (unmarkSeen r t) = registryNoNullable r"
  "registryNoNullable newTypeRegistry"
  by (simp_all add: registryNoNullable_def markSeen_def unmarkSeen_def newTypeRegistry_def)




section \<open>Pointers\<close>






section \<open>A struct type is compiled once\<close>

lemma registry_grows_typeToSchema:
  fixes F :: "'f float64_ops"
  assumes "typeToSchema F n env t r = Inr (s, r')"
  shows "dom (schemas r) \<subseteq> dom (schemas r')"
  using registry_grows_all [of F n env] assms
  by (elim conjE allE [of _ t] allE [of _ r] allE [of _ s] allE [of _ r']) simp

lemma registry_grows_structToSchema:
  fixes F :: "'f float64_ops"
  assumes "structToSchema F n env t r = Inr (s, r')"
  shows "dom (schemas r) \<subseteq> dom (schemas r')"
  using registry_grows_all [of F n env] assms
  by (elim conjE allE [of _ t] allE [of _ r] allE [of _ s] allE [of _ r']) simp

lemma Has_mono: "Has r name \<Longrightarrow> dom (schemas r) \<subseteq> dom (schemas r') \<Longrightarrow> Has r' name"
  by (auto simp: Has_def)

text \<open>
  C2. Let a struct type that is not a special type and is not in progress be compiled,
  directly or under pointers. The call returns the reference to the type's schema name
  and the registry then has an entry, exactly one, under that name. In every registry
  that has at least the names of that registry, a call of \<open>typeToSchema\<close> or
  \<open>structToSchema\<close> on the type, with at least the fuel of the first call, returns the same
  reference and the registry unchanged: the fields are not walked again. Every call of
  \<open>typeToSchema\<close> and \<open>structToSchema\<close> that returns leaves the names of the registry in
  place, so the registries of one lifetime are of that kind.
\<close>

theorem struct_type_compiled_once:
  fixes F :: "'f float64_ops"
  assumes first: "typeToSchema F n env t0 registry = Inr (s, registry1)"
    and t: "deref n env t0 = Inr t"
    and struct: "Kind (env t) = KStruct"
      "(specialTypeSchema env t :: 'f SchemaObject option) = None"
    and fresh: "\<not> isSeen registry t"
  shows "s = SchemaRef (bareName env t) \<and> Has registry1 (bareName env t)
       \<and> (\<exists>!schema. Get registry1 (bareName env t) = Some schema)
       \<and> (\<forall>(registry2 :: 'f TypeRegistry) m. dom (schemas registry1) \<subseteq> dom (schemas registry2) \<and> n \<le> m
            \<longrightarrow> typeToSchema F m env t0 registry2 = Inr (SchemaRef (bareName env t), registry2)
              \<and> structToSchema F m env t0 registry2
                  = Inr (SchemaRef (bareName env t), registry2))
       \<and> (\<forall>k u r x r'. typeToSchema F k env u r = Inr (x, r')
                          \<or> structToSchema F k env u r = Inr (x, r')
            \<longrightarrow> dom (schemas r) \<subseteq> dom (schemas r'))"
proof -
  from first obtain n' where n: "n = Suc n'" by (cases n) auto
  have dt: "deref (Suc j) env t = Inr t" for j
    using t by (rule deref_result)
  have d0: "deref (Suc n') env t0 = Inr t" using t unfolding n .
  have "typeToSchema F (Suc n') env t0 registry = structToSchema F n' env t registry"
    using d0 struct by (rule typeToSchema_struct)
  with first have st: "structToSchema F n' env t registry = Inr (s, registry1)"
    unfolding n by (simp del: typeToSchema.simps structToSchema.simps)
  then obtain n'' where n': "n' = Suc n''" by (cases n') auto
  from structToSchema_returns_ref [OF st] obtain x where
    x: "deref n' env t = Inr x" and sx: "s = SchemaRef (bareName env x)"
    and hx: "Has registry1 (bareName env x) \<or> isSeen registry x \<and> registry1 = registry"
    by (elim exE conjE) (rule that)
  have "x = t" using x dt [of n''] unfolding n' by (simp del: deref.simps)
  with sx hx fresh have s: "s = SchemaRef (bareName env t)"
    and h: "Has registry1 (bareName env t)"
    by simp_all
  have later: "\<forall>(registry2 :: 'f TypeRegistry) m. dom (schemas registry1) \<subseteq> dom (schemas registry2) \<and> n \<le> m
            \<longrightarrow> typeToSchema F m env t0 registry2 = Inr (SchemaRef (bareName env t), registry2)
              \<and> structToSchema F m env t0 registry2
                  = Inr (SchemaRef (bareName env t), registry2)"
  proof (intro allI impI, elim conjE)
    fix registry2 :: "'f TypeRegistry" and m
    assume sub: "dom (schemas registry1) \<subseteq> dom (schemas registry2)" and le: "n \<le> m"
    from le have "Suc (Suc n'') \<le> m" unfolding n n' .
    then obtain m'' where m: "m = Suc (Suc m'')"
      by (cases m; cases "m - 1") auto
    have h2: "Has registry2 (bareName env t)" using h sub by (rule Has_mono)
    have d: "deref (Suc (Suc m'')) env t0 = Inr t"
      using t le unfolding m by (rule deref_mono)
    have "typeToSchema F (Suc (Suc m'')) env t0 registry2
            = structToSchema F (Suc m'') env t registry2"
      using d struct by (rule typeToSchema_struct)
    also have "\<dots> = Inr (SchemaRef (bareName env t), registry2)"
      using dt h2 by (rule structToSchema_registered)
    finally have 1: "typeToSchema F m env t0 registry2
                       = Inr (SchemaRef (bareName env t), registry2)"
      unfolding m .
    have 2: "structToSchema F m env t0 registry2 = Inr (SchemaRef (bareName env t), registry2)"
      unfolding m using d h2 by (rule structToSchema_registered)
    from 1 2 show "typeToSchema F m env t0 registry2 = Inr (SchemaRef (bareName env t), registry2)
              \<and> structToSchema F m env t0 registry2
                  = Inr (SchemaRef (bareName env t), registry2)"
      by (intro conjI)
  qed
  have one: "\<exists>!schema. Get registry1 (bareName env t) = Some schema"
    using h by (auto simp: Has_def Get_def)
  have grows: "\<forall>k u r x r'. typeToSchema F k env u r = Inr (x, r')
                          \<or> structToSchema F k env u r = Inr (x, r')
            \<longrightarrow> dom (schemas r) \<subseteq> dom (schemas r')"
    by (intro allI impI, elim disjE)
       (erule registry_grows_typeToSchema, erule registry_grows_structToSchema)
  from s h one later grows show ?thesis by (intro conjI)
qed

theorem struct_type_compiled_once_witness:
  "\<exists>s reg1. typeToSchema intFloats 8 nodeEnv 0 newTypeRegistry = Inr (s, reg1)
      \<and> s = SchemaRef ''TestNode'' \<and> Has reg1 ''TestNode''
      \<and> typeToSchema intFloats 8 nodeEnv 0 reg1 = Inr (s, reg1)
      \<and> structToSchema intFloats 9 nodeEnv 0 reg1 = Inr (s, reg1)"
proof -
  obtain s reg1 where e: "typeToSchema intFloats 8 nodeEnv 0 newTypeRegistry = Inr (s, reg1)"
  proof -
    have "\<exists>s reg1. typeToSchema intFloats 8 nodeEnv 0 newTypeRegistry = Inr (s, reg1)"
      by (simp add: nodeEnv_def env_eval tag_eval schema_eval eval_nat_numeral)
    then show ?thesis by (elim exE) (rule that)
  qed
  have d: "deref 8 nodeEnv 0 = Inr 0" "Kind (nodeEnv 0) = KStruct"
    "(specialTypeSchema nodeEnv 0 :: int SchemaObject option) = None"
    "\<not> isSeen (newTypeRegistry :: int TypeRegistry) 0"
    and b: "bareName nodeEnv 0 = ''TestNode''"
    by (simp_all add: nodeEnv_def env_eval schema_eval bareName_def eval_nat_numeral)
  note main = struct_type_compiled_once [OF e d, unfolded b]
  from main have s: "s = SchemaRef ''TestNode''" by (elim conjE)
  from main have h: "Has reg1 ''TestNode''" by (elim conjE)
  from main have l: "\<forall>(registry2 :: int TypeRegistry) m. dom (schemas reg1) \<subseteq> dom (schemas registry2) \<and> 8 \<le> m
            \<longrightarrow> typeToSchema intFloats m nodeEnv 0 registry2 = Inr (SchemaRef ''TestNode'', registry2)
              \<and> structToSchema intFloats m nodeEnv 0 registry2
                  = Inr (SchemaRef ''TestNode'', registry2)"
    by (elim conjE)
  have l8: "typeToSchema intFloats 8 nodeEnv 0 reg1 = Inr (SchemaRef ''TestNode'', reg1)"
    using l [rule_format, of reg1 8] by (simp del: typeToSchema.simps structToSchema.simps)
  have l9: "structToSchema intFloats 9 nodeEnv 0 reg1 = Inr (SchemaRef ''TestNode'', reg1)"
    using l [rule_format, of reg1 9] by (simp del: typeToSchema.simps structToSchema.simps)
  from e s h l8 l9 show ?thesis
    by (intro exI [of _ s] exI [of _ reg1])
       (simp del: typeToSchema.simps structToSchema.simps)
qed


end
